theory Spec2Isabelle
  imports Complex_Main "HOL-Library.Word" "HOL-Library.Signed_Division" "HOL-Library.Multiset"
begin

unbundle bit_operations_syntax

section \<open>The audio voice manager of engine/audio/audio.cc\<close>

text \<open>
  This theory embeds the parts of \<^verbatim>\<open>src/engine/audio/audio.cc\<close> that manage handles,
  voices, looping images and streaming sources, together with the gain codec of namespace
  \<^verbatim>\<open>Audio\<close>.

  Conventions of the embedding.
  \<^item> \<^verbatim>\<open>F32\<close> quantities are real numbers. The functions below only compare, multiply and
    subtract them; every comparison of finite single-precision values agrees with the
    comparison of the reals they denote.
  \<^item> \<^verbatim>\<open>U32\<close> handles and millisecond timestamps are 32-bit words, so masks, wrap-around
    increments and wrap-around differences are those of the machine.
  \<^item> \<^verbatim>\<open>S32\<close> loop indices are integers; they stay between \<open>-1\<close> and \<open>128\<close> in every
    function modelled here, so no overflow arises. Division is C's truncating division.
  \<^item> \<^verbatim>\<open>AssertFatal\<close> is compiled out, as in a release build. Where the statement after a
    failed assertion would dereference a null iterator, the model returns an error value.
\<close>

subsection \<open>Basic types\<close>

type_synonym F32 = real
type_synonym U32 = "32 word"
type_synonym AUDIOHANDLE = "32 word"

datatype error =
  OutOfBounds     \<comment> \<open>an array read or write outside the array\<close>
  | NullIterator  \<comment> \<open>\<^verbatim>\<open>erase_fast\<close> on the null iterator returned by a failed \<^verbatim>\<open>findImage\<close>\<close>
  | Reentered     \<comment> \<open>a reactivation pass entered from inside a reactivation pass\<close>

subsection \<open>Handles\<close>

definition NULL_AUDIOHANDLE :: AUDIOHANDLE where
  "NULL_AUDIOHANDLE = 0"

definition AUDIOHANDLE_LOOPING_BIT :: AUDIOHANDLE where
  "AUDIOHANDLE_LOOPING_BIT = 0x80000000"

definition AUDIOHANDLE_STREAMING_BIT :: AUDIOHANDLE where
  "AUDIOHANDLE_STREAMING_BIT = 0x40000000"

definition AUDIOHANDLE_INACTIVE_BIT :: AUDIOHANDLE where
  "AUDIOHANDLE_INACTIVE_BIT = 0x20000000"

definition AUDIOHANDLE_LOADING_BIT :: AUDIOHANDLE where
  "AUDIOHANDLE_LOADING_BIT = 0x10000000"

definition HANDLE_MASK :: AUDIOHANDLE where
  "HANDLE_MASK =
     NOT (AUDIOHANDLE_LOOPING_BIT OR AUDIOHANDLE_INACTIVE_BIT OR AUDIOHANDLE_LOADING_BIT)"

definition RETURN_MASK :: AUDIOHANDLE where
  "RETURN_MASK = NOT (AUDIOHANDLE_INACTIVE_BIT OR AUDIOHANDLE_LOADING_BIT)"

definition areEqualHandles :: "AUDIOHANDLE \<Rightarrow> AUDIOHANDLE \<Rightarrow> bool" where
  "areEqualHandles a b = ((a AND HANDLE_MASK) = (b AND HANDLE_MASK))"

text \<open>
  The sequence bits as the specification describes them: the bits of a handle that are
  none of the four role flags. This constant is not part of the source; it is used to
  state the specification's reading of handle equality next to the source's.
\<close>

definition spec_SEQUENCE_MASK :: AUDIOHANDLE where
  "spec_SEQUENCE_MASK =
     NOT (AUDIOHANDLE_LOOPING_BIT OR AUDIOHANDLE_STREAMING_BIT
          OR AUDIOHANDLE_INACTIVE_BIT OR AUDIOHANDLE_LOADING_BIT)"

subsection \<open>Gain codec\<close>

definition logtab :: "F32 list" where
  "logtab = [
   0.00,    0.001,   0.002,   0.003,   0.004,
   0.005,   0.01,    0.011,   0.012,   0.013,
   0.014,   0.015,   0.016,   0.02,    0.021,
   0.022,   0.023,   0.024,   0.025,   0.03,
   0.031,   0.032,   0.033,   0.034,   0.04,
   0.041,   0.042,   0.043,   0.044,   0.05,
   0.051,   0.052,   0.053,   0.054,   0.06,
   0.061,   0.062,   0.063,   0.064,   0.07,
   0.071,   0.072,   0.073,   0.08,    0.081,
   0.082,   0.083,   0.084,   0.09,    0.091,
   0.092,   0.093,   0.094,   0.10,    0.101,
   0.102,   0.103,   0.11,    0.111,   0.112,
   0.113,   0.12,    0.121,   0.122,   0.123,
   0.124,   0.13,    0.131,   0.132,   0.14,
   0.141,   0.142,   0.143,   0.15,    0.151,
   0.152,   0.16,    0.161,   0.162,   0.17,
   0.171,   0.172,   0.18,    0.181,   0.19,
   0.191,   0.192,   0.20,    0.201,   0.21,
   0.211,   0.22,    0.221,   0.23,    0.231,
   0.24,    0.25,    0.251,   0.26,    0.27,
   0.271,   0.28,    0.29,    0.30,    0.301,
   0.31,    0.32,    0.33,    0.34,    0.35,
   0.36,    0.37,    0.38,    0.39,    0.40,
   0.41,    0.43,    0.50,    0.60,    0.65,
   0.70,    0.75,    0.80,    0.85,    0.90,
   0.95,    0.97,    0.99]"

text \<open>\<^verbatim>\<open>const int logmax = sizeof logtab / sizeof *logtab;\<close>\<close>

definition logmax :: int where
  "logmax = int (length logtab)"

text \<open>
  The loop of \<^verbatim>\<open>DBToLinear\<close>. The table is an argument, so that results about the loop hold
  for every table of \<open>logmax\<close> entries, in particular for the single-precision roundings of
  the literals above. One call is one iteration of the \<^verbatim>\<open>do ... while(last != mid)\<close>
  loop, entered with the current \<^verbatim>\<open>min\<close>, \<^verbatim>\<open>max\<close> and \<^verbatim>\<open>mid\<close>; \<^verbatim>\<open>last\<close> is the
  \<^verbatim>\<open>mid\<close> the iteration started with. A loop that never exits has the value \<open>None\<close>; a
  read of \<^verbatim>\<open>logtab[mid]\<close> outside the table is \<open>Some (Inl OutOfBounds)\<close>.
\<close>

partial_function (option) DBToLinear_loop ::
  "F32 list \<Rightarrow> F32 \<Rightarrow> int \<Rightarrow> int \<Rightarrow> int \<Rightarrow> (error + int) option" where
  "DBToLinear_loop tab val mn mx mid =
     (if mid < 0 \<or> int (length tab) \<le> mid then Some (Inl OutOfBounds)
      else if tab ! nat mid = val then Some (Inr mid)
      else let mn' = (if tab ! nat mid < val then mid else mn);
               mx' = (if tab ! nat mid < val then mx else mid);
               mid' = mn' + ((mx' - mn') sdiv 2)
           in if mid = mid' then Some (Inr mid')
              else DBToLinear_loop tab val mn' mx' mid')"

definition DBToLinear_tab :: "F32 list \<Rightarrow> F32 \<Rightarrow> (error + F32) option" where
  "DBToLinear_tab tab val =
     (if val \<le> 0 then Some (Inr 0)
      else if val \<ge> 1 then Some (Inr 1)
      else (case DBToLinear_loop tab val 0 logmax ((logmax - 0) sdiv 2) of
              None \<Rightarrow> None
            | Some (Inl e) \<Rightarrow> Some (Inl e)
            | Some (Inr mid) \<Rightarrow> Some (Inr (real_of_int mid / real_of_int logmax))))"

definition DBToLinear :: "F32 \<Rightarrow> (error + F32) option" where
  "DBToLinear val = DBToLinear_tab logtab val"

text \<open>
  \<^verbatim>\<open>linearToDB\<close>: the conversion \<^verbatim>\<open>(U32)(logmax * value)\<close> of a positive value truncates,
  which is the floor. The index is below \<open>logmax\<close> for every value the read is reached
  with (lemma \<open>linearToDB_index\<close> below).
\<close>

definition linearToDB_index :: "F32 \<Rightarrow> nat" where
  "linearToDB_index val = nat \<lfloor>real_of_int logmax * val\<rfloor>"

definition linearToDB :: "F32 \<Rightarrow> F32" where
  "linearToDB val =
     (if val \<le> 0 then 0
      else if val \<ge> 1 then 1
      else logtab ! linearToDB_index val)"

subsection \<open>Constants and data\<close>

definition MAX_AUDIOSOURCES :: nat where
  "MAX_AUDIOSOURCES = 16"

definition MIN_GAIN :: F32 where
  "MIN_GAIN = 0.05"

definition MIN_UNCULL_PERIOD :: U32 where
  "MIN_UNCULL_PERIOD = 500"

definition MIN_UNCULL_GAIN :: F32 where
  "MIN_UNCULL_GAIN = 0.1"

text \<open>
  The headers \<^verbatim>\<open>audio.h\<close>, \<^verbatim>\<open>audioStreamSource.h\<close>, \<^verbatim>\<open>tVector.h\<close> and the math library
  are not among the sources. The records below hold the fields that \<^verbatim>\<open>audio.cc\<close> reads
  or writes with a bearing on handles, voices, scores and list membership. Fields that
  are only passed on to OpenAL (cone angles, cone vector, environment level, pitch of a
  voice) are left out. A resource (\<^verbatim>\<open>Resource<AudioBuffer>\<close>) and a pointer to a sample
  environment are natural numbers, \<open>0\<close> for null. \<^verbatim>\<open>mType\<close> of a description is taken as
  unsigned, like the voice table \<^verbatim>\<open>mType[]\<close>.
\<close>

type_synonym Point3F = "F32 \<times> F32 \<times> F32"

record MatrixF =
  column1 :: Point3F
  column3 :: Point3F

record Description =
  mVolume :: F32
  mIsLooping :: bool
  mIsStreaming :: bool
  mIs3D :: bool
  mReferenceDistance :: F32
  mMaxDistance :: F32
  mType :: nat

record LoopingImage =
  mHandle :: AUDIOHANDLE
  mBuffer :: nat
  mDescription :: Description
  mEnvironment :: nat
  mPosition :: Point3F
  mDirection :: Point3F
  mPitch :: F32
  mScore :: F32
  mCullTime :: U32

text \<open>
  An \<^verbatim>\<open>AudioStreamSource\<close>. \<open>streamOpen\<close> stands for the decoder state that
  \<^verbatim>\<open>initStream\<close> acquires and \<^verbatim>\<open>freeStream\<close> releases.
\<close>

record AudioStreamSource =
  mHandle :: AUDIOHANDLE
  mSource :: nat
  mDescription :: Description
  mEnvironment :: nat
  mPosition :: Point3F
  mDirection :: Point3F
  mScore :: F32
  mCullTime :: U32
  streamOpen :: bool

text \<open>The properties of an OpenAL source that \<^verbatim>\<open>audio.cc\<close> reads back.\<close>

datatype ALstate = AL_INITIAL | AL_PLAYING | AL_STOPPED

record ALsource =
  AL_SOURCE_STATE :: ALstate
  AL_GAIN :: F32
  AL_SOURCE_RELATIVE :: bool
  AL_POSITION :: Point3F
  AL_REFERENCE_DISTANCE :: F32
  AL_MAX_DISTANCE :: F32

text \<open>
  The file's static variables. The voice tables have \<open>MAX_AUDIOSOURCES\<close> entries, of
  which the first \<open>mNumSources\<close> are in use. The vectors of image pointers are lists of
  addresses into \<open>loopingImages\<close> and \<open>streamSources\<close>, the objects allocated with
  \<^verbatim>\<open>new\<close>; two lists that hold the same address share the image, as the pointers do.
  \<open>alSources\<close> is the OpenAL device, indexed by source name, \<open>alListenerPosition\<close> its
  listener, and \<open>clockReads\<close> counts the calls of \<^verbatim>\<open>Platform::getRealMilliseconds\<close>.
\<close>

record audio =
  mContext :: bool
  mAudioTypeVolume :: "F32 list"
  mMasterVolume :: F32
  mSource :: "nat list"
  mHandle :: "AUDIOHANDLE list"
  mBuffer :: "nat list"
  mScore :: "F32 list"
  mSourceVolume :: "F32 list"
  mType :: "nat list"
  mSampleEnvironment :: "nat list"
  mLoopingList :: "nat list"
  mLoopingFreeList :: "nat list"
  mLoopingInactiveList :: "nat list"
  mLoopingCulledList :: "nat list"
  mStreamingList :: "nat list"
  mStreamingInactiveList :: "nat list"
  mStreamingCulledList :: "nat list"
  mLastHandle :: AUDIOHANDLE
  mNumSources :: nat
  loopingImages :: "LoopingImage list"
  streamSources :: "AudioStreamSource list"
  alSources :: "ALsource list"
  alListenerPosition :: Point3F
  clockReads :: nat

text \<open>
  What the platform and math layers supply (none of them among the sources): the
  millisecond clock (its \<open>n\<close>-th reading), the \<^verbatim>\<open>dQsort\<close> routine (given the comparison
  and the array of pointers, it returns the array as it leaves it), the resource
  manager's \<^verbatim>\<open>AudioBuffer::find\<close>, whether \<^verbatim>\<open>AudioStreamSourceFactory::getNewInstance\<close>
  yields an object for a file name, and \<^verbatim>\<open>Point3F::magnitudeSafe\<close>, the length of a vector.
\<close>

record platform =
  getRealMilliseconds :: "nat \<Rightarrow> U32"
  dQsort :: "(nat \<Rightarrow> nat \<Rightarrow> int) \<Rightarrow> nat list \<Rightarrow> nat list"
  AudioBuffer_find :: "string \<Rightarrow> nat"
  getNewInstance :: "string \<Rightarrow> bool"
  magnitudeSafe :: "Point3F \<Rightarrow> F32"

definition Platform_getRealMilliseconds :: "platform \<Rightarrow> audio \<Rightarrow> U32 \<times> audio" where
  "Platform_getRealMilliseconds pf st =
     (getRealMilliseconds pf (clockReads st), st\<lparr>clockReads := Suc (clockReads st)\<rparr>)"

text \<open>\<^verbatim>\<open>F32 mAudioTypeVolume[Audio::NumAudioTypes]\<close>\<close>

definition NumAudioTypes :: "audio \<Rightarrow> nat" where
  "NumAudioTypes st = length (mAudioTypeVolume st)"

definition Description_zero :: Description where
  "Description_zero = \<lparr>mVolume = 0, mIsLooping = False, mIsStreaming = False, mIs3D = False,
     mReferenceDistance = 0, mMaxDistance = 0, mType = 0\<rparr>"

text \<open>\<^verbatim>\<open>LoopingImage::clear\<close>, which is also the constructor.\<close>

definition LoopingImage_clear :: LoopingImage where
  "LoopingImage_clear = \<lparr>LoopingImage.mHandle = NULL_AUDIOHANDLE, mBuffer = 0,
     mDescription = Description_zero, mEnvironment = 0, mPosition = (0, 0, 0),
     mDirection = (0, 1, 0), mPitch = 1, mScore = 0, mCullTime = 0\<rparr>"

text \<open>
  A stream source as the factory returns it. Its constructor is not among the sources;
  the fields that \<^verbatim>\<open>alxCreateSource\<close> does not assign start at zero.
\<close>

definition AudioStreamSource_new :: AudioStreamSource where
  "AudioStreamSource_new = \<lparr>AudioStreamSource.mHandle = NULL_AUDIOHANDLE, mSource = 0,
     mDescription = Description_zero, mEnvironment = 0, mPosition = (0, 0, 0),
     mDirection = (0, 0, 0), mScore = 0, mCullTime = 0, streamOpen = False\<rparr>"

definition setLooping :: "nat \<Rightarrow> (LoopingImage \<Rightarrow> LoopingImage) \<Rightarrow> audio \<Rightarrow> audio" where
  "setLooping p f st = st\<lparr>loopingImages := (loopingImages st)[p := f (loopingImages st ! p)]\<rparr>"

definition setStream :: "nat \<Rightarrow> (AudioStreamSource \<Rightarrow> AudioStreamSource) \<Rightarrow> audio \<Rightarrow> audio" where
  "setStream p f st = st\<lparr>streamSources := (streamSources st)[p := f (streamSources st ! p)]\<rparr>"

subsection \<open>Vectors of image pointers\<close>

text \<open>
  Modelled from the spec: \<^verbatim>\<open>Vector::erase_fast\<close> of \<^verbatim>\<open>core/tVector.h\<close> is not among the
  sources. The membership lists are unordered; the erase removes the element at the
  iterator by moving the last element into its place and shrinking the vector by one.
\<close>

definition erase_fast :: "nat list \<Rightarrow> nat \<Rightarrow> nat list" where
  "erase_fast v itr = (if itr < length v - 1 then (butlast v)[itr := last v] else butlast v)"

text \<open>
  The scan of \<^verbatim>\<open>findImage\<close> over the handles of a vector's images; the result is the
  iterator (the position in the vector) of the first image with an equal handle.
\<close>

fun findImage_scan :: "AUDIOHANDLE list \<Rightarrow> AUDIOHANDLE \<Rightarrow> nat \<Rightarrow> nat option" where
  "findImage_scan [] handle itr = None"
| "findImage_scan (h # hs) handle itr =
     (if areEqualHandles h handle then Some itr else findImage_scan hs handle (Suc itr))"

definition LoopingList_findImage :: "LoopingImage list \<Rightarrow> nat list \<Rightarrow> AUDIOHANDLE \<Rightarrow> nat option" where
  "LoopingList_findImage images v handle =
     (if handle AND AUDIOHANDLE_LOOPING_BIT \<noteq> 0
      then findImage_scan (map (\<lambda>p. LoopingImage.mHandle (images ! p)) v) handle 0
      else None)"

definition StreamingList_findImage ::
  "AudioStreamSource list \<Rightarrow> nat list \<Rightarrow> AUDIOHANDLE \<Rightarrow> nat option" where
  "StreamingList_findImage sources v handle =
     (if handle AND AUDIOHANDLE_STREAMING_BIT \<noteq> 0
      then findImage_scan (map (\<lambda>p. AudioStreamSource.mHandle (sources ! p)) v) handle 0
      else None)"

text \<open>The conversion of an \<^verbatim>\<open>F32\<close> to \<^verbatim>\<open>int\<close> truncates towards zero.\<close>

definition F32_to_int :: "F32 \<Rightarrow> int" where
  "F32_to_int v = (if 0 \<le> v then \<lfloor>v\<rfloor> else \<lceil>v\<rceil>)"

definition loopingImageSort :: "LoopingImage \<Rightarrow> LoopingImage \<Rightarrow> int" where
  "loopingImageSort ip1 ip2 = F32_to_int (LoopingImage.mScore ip2 - LoopingImage.mScore ip1)"

definition streamingSourceSort :: "AudioStreamSource \<Rightarrow> AudioStreamSource \<Rightarrow> int" where
  "streamingSourceSort ip1 ip2 =
     F32_to_int (AudioStreamSource.mScore ip2 - AudioStreamSource.mScore ip1)"

definition LoopingList_sort :: "platform \<Rightarrow> LoopingImage list \<Rightarrow> nat list \<Rightarrow> nat list" where
  "LoopingList_sort pf images v =
     dQsort pf (\<lambda>p1 p2. loopingImageSort (images ! p1) (images ! p2)) v"

definition StreamingList_sort ::
  "platform \<Rightarrow> AudioStreamSource list \<Rightarrow> nat list \<Rightarrow> nat list" where
  "StreamingList_sort pf sources v =
     dQsort pf (\<lambda>p1 p2. streamingSourceSort (sources ! p1) (sources ! p2)) v"

definition createLoopingImage :: "audio \<Rightarrow> nat \<times> audio" where
  "createLoopingImage st =
     (if mLoopingFreeList st \<noteq> []
      then (last (mLoopingFreeList st), st\<lparr>mLoopingFreeList := butlast (mLoopingFreeList st)\<rparr>)
      else (length (loopingImages st),
            st\<lparr>loopingImages := loopingImages st @ [LoopingImage_clear]\<rparr>))"

text \<open>
  \<^verbatim>\<open>createStreamingSource\<close>: \<open>None\<close> when the factory returns the null pointer, else the
  address of the new object.
\<close>

definition createStreamingSource :: "platform \<Rightarrow> string \<Rightarrow> audio \<Rightarrow> nat option \<times> audio" where
  "createStreamingSource pf filename st =
     (if getNewInstance pf filename
      then (Some (length (streamSources st)),
            st\<lparr>streamSources := streamSources st @ [AudioStreamSource_new]\<rparr>)
      else (None, st))"

definition getNewHandle :: "audio \<Rightarrow> AUDIOHANDLE \<times> audio" where
  "getNewHandle st =
     (let h = (mLastHandle st + 1) AND HANDLE_MASK;
          h' = (if h = NULL_AUDIOHANDLE then h + 1 else h)
      in (h', st\<lparr>mLastHandle := h'\<rparr>))"

subsection \<open>Voices\<close>

definition findFreeSource :: "audio \<Rightarrow> nat option" where
  "findFreeSource st =
     find (\<lambda>i. mHandle st ! i = NULL_AUDIOHANDLE) [0..<mNumSources st]"

definition alxFindIndex :: "audio \<Rightarrow> AUDIOHANDLE \<Rightarrow> nat" where
  "alxFindIndex st handle =
     (case find (\<lambda>i. mHandle st ! i \<noteq> 0 \<and> areEqualHandles (mHandle st ! i) handle)
             [0..<mNumSources st] of
        Some i \<Rightarrow> i
      | None \<Rightarrow> MAX_AUDIOSOURCES)"

text \<open>OpenAL calls on a source name. A name the device does not know changes nothing.\<close>

definition alSource_set :: "nat \<Rightarrow> (ALsource \<Rightarrow> ALsource) \<Rightarrow> audio \<Rightarrow> audio" where
  "alSource_set source f st =
     (if source < length (alSources st)
      then st\<lparr>alSources := (alSources st)[source := f (alSources st ! source)]\<rparr>
      else st)"

definition alSourcePlay :: "nat \<Rightarrow> audio \<Rightarrow> audio" where
  "alSourcePlay source st = alSource_set source (\<lambda>s. s\<lparr>AL_SOURCE_STATE := AL_PLAYING\<rparr>) st"

definition alSourceStop :: "nat \<Rightarrow> audio \<Rightarrow> audio" where
  "alSourceStop source st =
     alSource_set source
       (\<lambda>s. s\<lparr>AL_SOURCE_STATE :=
                (if AL_SOURCE_STATE s = AL_INITIAL then AL_INITIAL else AL_STOPPED)\<rparr>) st"

text \<open>
  The scan of \<^verbatim>\<open>cullSource\<close>: the pair \<^verbatim>\<open>(minVolume, best)\<close> after the loop over the
  voices \<open>0 .. mNumSources - 1\<close>, started at \<^verbatim>\<open>(volume, -1)\<close>.
\<close>

definition cullSource_scan :: "audio \<Rightarrow> F32 \<Rightarrow> F32 \<times> int" where
  "cullSource_scan st volume =
     fold (\<lambda>i (minVolume, best).
             if mScore st ! i < minVolume then (mScore st ! i, int i) else (minVolume, best))
          [0..<mNumSources st] (volume, -1)"

definition cullSource_looper :: "platform \<Rightarrow> nat \<Rightarrow> audio \<Rightarrow> audio" where
  "cullSource_looper pf best st =
     (case LoopingList_findImage (loopingImages st) (mLoopingList st) (mHandle st ! best) of
        None \<Rightarrow> st
      | Some itr \<Rightarrow>
          let img = mLoopingList st ! itr in
          if mHandle st ! best AND AUDIOHANDLE_INACTIVE_BIT \<noteq> 0
          then st\<lparr>mLoopingInactiveList := mLoopingInactiveList st @ [img]\<rparr>
          else
            let st1 = setLooping img
                  (\<lambda>i. i\<lparr>LoopingImage.mHandle :=
                           LoopingImage.mHandle i OR AUDIOHANDLE_INACTIVE_BIT\<rparr>) st;
                (now, st2) = Platform_getRealMilliseconds pf st1;
                st3 = setLooping img (\<lambda>i. i\<lparr>LoopingImage.mCullTime := now\<rparr>) st2
            in st3\<lparr>mLoopingCulledList := mLoopingCulledList st3 @ [img]\<rparr>)"

definition cullSource_streamer :: "platform \<Rightarrow> nat \<Rightarrow> audio \<Rightarrow> audio" where
  "cullSource_streamer pf best st =
     (case StreamingList_findImage (streamSources st) (mStreamingList st) (mHandle st ! best) of
        None \<Rightarrow> st
      | Some itr2 \<Rightarrow>
          let source = mStreamingList st ! itr2 in
          if mHandle st ! best AND AUDIOHANDLE_INACTIVE_BIT \<noteq> 0
          then st\<lparr>mStreamingInactiveList := mStreamingInactiveList st @ [source]\<rparr>
          else
            let st1 = setStream source
                  (\<lambda>s. s\<lparr>AudioStreamSource.mHandle :=
                           AudioStreamSource.mHandle s OR AUDIOHANDLE_INACTIVE_BIT,
                         streamOpen := False\<rparr>) st;
                (now, st2) = Platform_getRealMilliseconds pf st1;
                st3 = setStream source (\<lambda>s. s\<lparr>AudioStreamSource.mCullTime := now\<rparr>) st2
            in st3\<lparr>mStreamingCulledList := mStreamingCulledList st3 @ [source]\<rparr>)"

text \<open>
  \<^verbatim>\<open>cullSource\<close> returns \<^verbatim>\<open>false\<close> (here \<open>None\<close>) and leaves \<^verbatim>\<open>*index\<close> alone, or
  returns \<^verbatim>\<open>true\<close> with \<^verbatim>\<open>*index = best\<close> (here \<open>Some best\<close>).
\<close>

definition cullSource :: "platform \<Rightarrow> F32 \<Rightarrow> audio \<Rightarrow> nat option \<times> audio" where
  "cullSource pf volume st =
     (let best = snd (cullSource_scan st volume) in
      if best = -1 then (None, st)
      else
        let b = nat best;
            st1 = cullSource_looper pf b st;
            st2 = cullSource_streamer pf b st1;
            st3 = alSourceStop (mSource st2 ! b) st2
        in (Some b, st3\<lparr>mHandle := (mHandle st3)[b := NULL_AUDIOHANDLE],
                        mBuffer := (mBuffer st3)[b := 0]\<rparr>))"

text \<open>The difference of two points (\<^verbatim>\<open>p1 - p2\<close>, \<^verbatim>\<open>p1 -= p2\<close>).\<close>

definition Point3F_sub :: "Point3F \<Rightarrow> Point3F \<Rightarrow> Point3F" where
  "Point3F_sub a b =
     (case a of (ax, ay, az) \<Rightarrow> case b of (bx, by, bz) \<Rightarrow> (ax - bx, ay - by, az - bz))"

definition approximate3DVolume :: "platform \<Rightarrow> Description \<Rightarrow> Point3F \<Rightarrow> audio \<Rightarrow> F32" where
  "approximate3DVolume pf desc position st =
     (let distance = magnitudeSafe pf (Point3F_sub (alListenerPosition st) position) in
      if distance \<ge> mMaxDistance desc then 0
      else if distance < mReferenceDistance desc then 1
      else 1 - (distance - mReferenceDistance desc)
                 / (mMaxDistance desc - mReferenceDistance desc))"

text \<open>
  \<^verbatim>\<open>alxSourcePlay(source, buffer, desc, transform)\<close>. The third argument is the position
  column of the transform, \<open>None\<close> for the null transform (a 2D sound).
\<close>

definition alxSourcePlay :: "nat \<Rightarrow> Description \<Rightarrow> Point3F option \<Rightarrow> audio \<Rightarrow> audio" where
  "alxSourcePlay source desc position st =
     alSource_set source
       (\<lambda>s. s\<lparr>AL_GAIN := linearToDB (mVolume desc
                            * mAudioTypeVolume st ! Description.mType desc * mMasterVolume st),
              AL_SOURCE_RELATIVE := (position = None),
              AL_POSITION := (case position of Some p \<Rightarrow> p | None \<Rightarrow> (0, 0, 1)),
              AL_REFERENCE_DISTANCE := mReferenceDistance desc,
              AL_MAX_DISTANCE := mMaxDistance desc\<rparr>) st"

text \<open>\<^verbatim>\<open>alxSourcePlay(source, image)\<close>, the helper for looping images.\<close>

definition alxSourcePlay_image :: "nat \<Rightarrow> LoopingImage \<Rightarrow> audio \<Rightarrow> audio" where
  "alxSourcePlay_image source img st =
     alxSourcePlay source (LoopingImage.mDescription img)
       (if mIs3D (LoopingImage.mDescription img)
        then Some (LoopingImage.mPosition img) else None) st"

text \<open>\<^verbatim>\<open>alxSourcePlay(streamSource)\<close>: the source name is the one stored in the object.\<close>

definition alxSourcePlay_stream :: "nat \<Rightarrow> audio \<Rightarrow> audio" where
  "alxSourcePlay_stream p st =
     (let desc = AudioStreamSource.mDescription (streamSources st ! p);
          source = AudioStreamSource.mSource (streamSources st ! p);
          st1 = setStream p (\<lambda>s. s\<lparr>streamOpen := True\<rparr>) st;
          st2 = (if mIs3D desc then st1
                 else setStream p (\<lambda>s. s\<lparr>AudioStreamSource.mPosition := (0, 0, 1)\<rparr>) st1)
      in alxSourcePlay source desc
           (if mIs3D desc then Some (AudioStreamSource.mPosition (streamSources st ! p))
            else None) st2)"

subsection \<open>Scores\<close>

text \<open>
  The distance attenuation that \<^verbatim>\<open>alxUpdateScores\<close> applies in three places:
  \<^verbatim>\<open>if(dist >= max) score = 0; else if(dist > min) score *= (max-dist) / (max-min);\<close>
\<close>

definition distanceScore :: "F32 \<Rightarrow> F32 \<Rightarrow> F32 \<Rightarrow> F32 \<Rightarrow> F32" where
  "distanceScore score d mn mx =
     (if d \<ge> mx then 0
      else if d > mn then score * ((mx - d) / (mx - mn))
      else score)"

text \<open>The value that the first loop of \<^verbatim>\<open>alxUpdateScores\<close> stores in \<^verbatim>\<open>mScore[i]\<close>.\<close>

definition alxUpdateScores_source :: "platform \<Rightarrow> audio \<Rightarrow> nat \<Rightarrow> F32" where
  "alxUpdateScores_source pf st i =
     (if mHandle st ! i = NULL_AUDIOHANDLE then 0
      else
        let volume = mSourceVolume st ! i * mAudioTypeVolume st ! (mType st ! i);
            s = alSources st ! (mSource st ! i)
        in if \<not> AL_SOURCE_RELATIVE s
           then distanceScore volume
                  (magnitudeSafe pf (Point3F_sub (AL_POSITION s) (alListenerPosition st)))
                  (AL_REFERENCE_DISTANCE s) (AL_MAX_DISTANCE s)
           else volume)"

definition alxUpdateScores_sources :: "platform \<Rightarrow> audio \<Rightarrow> audio" where
  "alxUpdateScores_sources pf st =
     st\<lparr>mScore := fold (\<lambda>i sc. sc[i := alxUpdateScores_source pf st i])
                        [0..<mNumSources st] (mScore st)\<rparr>"

definition alxUpdateScores_image ::
  "platform \<Rightarrow> audio \<Rightarrow> U32 \<Rightarrow> LoopingImage \<Rightarrow> LoopingImage" where
  "alxUpdateScores_image pf st updateTime img =
     (if LoopingImage.mHandle img AND AUDIOHANDLE_INACTIVE_BIT = 0 then img
      else if updateTime - LoopingImage.mCullTime img < MIN_UNCULL_PERIOD then img
      else
        let desc = LoopingImage.mDescription img;
            score = (if mIs3D desc
                     then distanceScore (mVolume desc)
                            (magnitudeSafe pf (Point3F_sub (LoopingImage.mPosition img)
                                                        (alListenerPosition st)))
                            (mReferenceDistance desc) (mMaxDistance desc)
                     else mVolume desc)
        in img\<lparr>LoopingImage.mScore :=
                   score * mAudioTypeVolume st ! Description.mType desc\<rparr>)"

definition alxUpdateScores_stream ::
  "platform \<Rightarrow> audio \<Rightarrow> U32 \<Rightarrow> AudioStreamSource \<Rightarrow> AudioStreamSource" where
  "alxUpdateScores_stream pf st updateTime source =
     (if AudioStreamSource.mHandle source AND AUDIOHANDLE_INACTIVE_BIT = 0 then source
      else if updateTime - AudioStreamSource.mCullTime source < MIN_UNCULL_PERIOD then source
      else
        let desc = AudioStreamSource.mDescription source;
            score = (if mIs3D desc
                     then distanceScore (mVolume desc)
                            (magnitudeSafe pf (Point3F_sub (AudioStreamSource.mPosition source)
                                                        (alListenerPosition st)))
                            (mReferenceDistance desc) (mMaxDistance desc)
                     else mVolume desc)
        in source\<lparr>AudioStreamSource.mScore :=
                    score * mAudioTypeVolume st ! Description.mType desc\<rparr>)"

definition alxUpdateScores :: "platform \<Rightarrow> bool \<Rightarrow> audio \<Rightarrow> audio" where
  "alxUpdateScores pf sourcesOnly st =
     (let st1 = alxUpdateScores_sources pf st in
      if sourcesOnly then st1
      else
        let (updateTime, st2) = Platform_getRealMilliseconds pf st1;
            st3 = fold (\<lambda>p. setLooping p (alxUpdateScores_image pf st2 updateTime))
                       (mLoopingList st2) st2
        in fold (\<lambda>p. setStream p (alxUpdateScores_stream pf st2 updateTime))
                (mStreamingList st3) st3)"

subsection \<open>Creating a source\<close>

text \<open>
  Lines 615--623 of \<^verbatim>\<open>alxCreateSource\<close>: the source volume, attenuated by distance for a
  3D sound that comes with a transform.
\<close>

definition alxCreateSource_volume ::
  "platform \<Rightarrow> Description \<Rightarrow> MatrixF option \<Rightarrow> audio \<Rightarrow> F32" where
  "alxCreateSource_volume pf desc transform st =
     (case transform of
        None \<Rightarrow> mVolume desc
      | Some t \<Rightarrow>
          if mIs3D desc
          then mVolume desc * approximate3DVolume pf desc (column3 t) st
          else mVolume desc)"

text \<open>
  Lines 641--654 of \<^verbatim>\<open>alxCreateSource\<close>: the voice for the new source, or
  \<open>MAX_AUDIOSOURCES\<close> when there is none.
\<close>

definition alxCreateSource_index :: "platform \<Rightarrow> F32 \<Rightarrow> audio \<Rightarrow> nat \<times> audio" where
  "alxCreateSource_index pf volume st =
     (if volume > MIN_GAIN
      then (case findFreeSource st of
              Some index \<Rightarrow> (index, st)
            | None \<Rightarrow>
                (case cullSource pf volume (alxUpdateScores pf True st) of
                   (Some index, st') \<Rightarrow> (index, st')
                 | (None, st') \<Rightarrow> (MAX_AUDIOSOURCES, st')))
      else (MAX_AUDIOSOURCES, st))"

text \<open>
  The assignments to a looping image's fields, the same in both places that create one.
\<close>

definition LoopingImage_init ::
  "AUDIOHANDLE \<Rightarrow> nat \<Rightarrow> Description \<Rightarrow> F32 \<Rightarrow> nat \<Rightarrow> MatrixF option
     \<Rightarrow> LoopingImage \<Rightarrow> LoopingImage" where
  "LoopingImage_init handle buffer desc volume sampleEnvironment transform img =
     (let img' = img\<lparr>LoopingImage.mHandle := handle, LoopingImage.mBuffer := buffer,
                     LoopingImage.mDescription := desc, LoopingImage.mScore := volume,
                     LoopingImage.mEnvironment := sampleEnvironment\<rparr>
      in case transform of
           None \<Rightarrow> img'
         | Some t \<Rightarrow> img'\<lparr>LoopingImage.mPosition := column3 t,
                          LoopingImage.mDirection := column1 t\<rparr>)"

text \<open>Lines 661--688: no voice, the source is a looper.\<close>

definition alxCreateSource_inactive ::
  "platform \<Rightarrow> Description \<Rightarrow> string \<Rightarrow> MatrixF option \<Rightarrow> nat \<Rightarrow> F32 \<Rightarrow> audio
     \<Rightarrow> AUDIOHANDLE \<times> audio" where
  "alxCreateSource_inactive pf desc filename transform sampleEnvironment volume st =
     (let buffer = AudioBuffer_find pf filename in
      if buffer = 0 then (NULL_AUDIOHANDLE, st)
      else
        let (img, st1) = createLoopingImage st;
            (h, st2) = getNewHandle st1;
            handle = h OR AUDIOHANDLE_LOOPING_BIT OR AUDIOHANDLE_INACTIVE_BIT;
            st3 = setLooping img
                    (LoopingImage_init handle buffer desc volume sampleEnvironment transform) st2
        in (handle AND RETURN_MASK,
            st3\<lparr>mLoopingList := mLoopingList st3 @ [img],
                 mLoopingInactiveList := mLoopingInactiveList st3 @ [img]\<rparr>))"

text \<open>Lines 760--784: the looping image of a source that has a voice.\<close>

definition alxCreateSource_looper ::
  "nat \<Rightarrow> nat \<Rightarrow> Description \<Rightarrow> MatrixF option \<Rightarrow> nat \<Rightarrow> F32 \<Rightarrow> audio \<Rightarrow> audio" where
  "alxCreateSource_looper index buffer desc transform sampleEnvironment volume st =
     (let st1 = st\<lparr>mHandle := (mHandle st)[index := mHandle st ! index OR AUDIOHANDLE_LOOPING_BIT]\<rparr>;
          (img, st2) = createLoopingImage st1;
          st3 = setLooping img
                  (LoopingImage_init (mHandle st2 ! index) buffer desc volume
                     sampleEnvironment transform) st2
      in st3\<lparr>mLoopingList := mLoopingList st3 @ [img]\<rparr>)"

text \<open>
  Lines 786--825: the stream source of a source that has a voice. The result is \<open>False\<close>
  when the factory returns null and the voice has been given back.
\<close>

definition alxCreateSource_streamer ::
  "platform \<Rightarrow> nat \<Rightarrow> Description \<Rightarrow> string \<Rightarrow> MatrixF option \<Rightarrow> nat \<Rightarrow> F32 \<Rightarrow> audio
     \<Rightarrow> bool \<times> audio" where
  "alxCreateSource_streamer pf index desc filename transform sampleEnvironment volume st =
     (let st1 = st\<lparr>mHandle := (mHandle st)[index := mHandle st ! index
                      OR (AUDIOHANDLE_STREAMING_BIT OR AUDIOHANDLE_LOADING_BIT)]\<rparr>
      in case createStreamingSource pf filename st1 of
           (Some streamSource, st2) \<Rightarrow>
             let st3 = setStream streamSource
                   (\<lambda>s. let s' = s\<lparr>AudioStreamSource.mHandle := mHandle st2 ! index,
                                    AudioStreamSource.mSource := mSource st2 ! index,
                                    AudioStreamSource.mDescription := desc,
                                    AudioStreamSource.mScore := volume,
                                    AudioStreamSource.mEnvironment := sampleEnvironment\<rparr>
                         in case transform of
                              None \<Rightarrow> s'
                            | Some t \<Rightarrow> s'\<lparr>AudioStreamSource.mPosition := column3 t,
                                           AudioStreamSource.mDirection := column1 t\<rparr>) st2;
                 st4 = alxSourcePlay_stream streamSource st3
             in (True, st4\<lparr>mStreamingList := mStreamingList st4 @ [streamSource]\<rparr>)
         | (None, st2) \<Rightarrow>
             (False, st2\<lparr>mSampleEnvironment := (mSampleEnvironment st2)[index := 0],
                         mHandle := (mHandle st2)[index := NULL_AUDIOHANDLE],
                         mBuffer := (mBuffer st2)[index := 0]\<rparr>))"

text \<open>Lines 730--828: the source has the voice \<open>index\<close>.\<close>

definition alxCreateSource_voice ::
  "platform \<Rightarrow> nat \<Rightarrow> Description \<Rightarrow> string \<Rightarrow> MatrixF option \<Rightarrow> nat \<Rightarrow> F32 \<Rightarrow> audio
     \<Rightarrow> AUDIOHANDLE \<times> audio" where
  "alxCreateSource_voice pf index desc filename transform sampleEnvironment volume st =
     (let buffer = (if \<not> mIsStreaming desc then AudioBuffer_find pf filename else 0) in
      if \<not> mIsStreaming desc \<and> buffer = 0 then (NULL_AUDIOHANDLE, st)
      else
        let (h, st1) = getNewHandle st;
            st2 = st1\<lparr>mHandle := (mHandle st1)[index := h OR AUDIOHANDLE_INACTIVE_BIT],
                      mType := (mType st1)[index := Description.mType desc]\<rparr>;
            st3 = (if \<not> mIsStreaming desc
                   then st2\<lparr>mBuffer := (mBuffer st2)[index := buffer]\<rparr> else st2);
            st4 = st3\<lparr>mScore := (mScore st3)[index := volume],
                      mSourceVolume := (mSourceVolume st3)[index := mVolume desc],
                      mSampleEnvironment := (mSampleEnvironment st3)[index := sampleEnvironment]\<rparr>;
            st5 = (if \<not> mIsStreaming desc
                   then alxSourcePlay (mSource st4 ! index) desc
                          (if mIs3D desc then map_option column3 transform else None) st4
                   else st4);
            st6 = (if mIsLooping desc \<and> \<not> mIsStreaming desc
                   then alxCreateSource_looper index buffer desc transform sampleEnvironment
                          volume st5
                   else st5)
        in if mIsStreaming desc
           then (case alxCreateSource_streamer pf index desc filename transform
                        sampleEnvironment volume st6 of
                   (True, st7) \<Rightarrow> (mHandle st7 ! index AND RETURN_MASK, st7)
                 | (False, st7) \<Rightarrow> (NULL_AUDIOHANDLE, st7))
           else (mHandle st6 ! index AND RETURN_MASK, st6))"

text \<open>
  \<^verbatim>\<open>alxCreateSource(desc, filename, transform, sampleEnvironment)\<close>. A null \<^verbatim>\<open>desc\<close>,
  \<^verbatim>\<open>filename\<close> or \<^verbatim>\<open>transform\<close> is \<open>None\<close>. The second test
  \<^verbatim>\<open>if(index == MAX_AUDIOSOURCES)\<close> of the source (lines 693--728, the inactive streamer)
  follows a block that returns on both branches of the same test and is never reached;
  it has no counterpart here.
\<close>

definition alxCreateSource ::
  "platform \<Rightarrow> Description option \<Rightarrow> string option \<Rightarrow> MatrixF option \<Rightarrow> nat \<Rightarrow> audio
     \<Rightarrow> AUDIOHANDLE \<times> audio" where
  "alxCreateSource pf descp filenamep transform sampleEnvironment st =
     (if \<not> mContext st then (NULL_AUDIOHANDLE, st)
      else case descp of
        None \<Rightarrow> (NULL_AUDIOHANDLE, st)
      | Some desc \<Rightarrow>
      (case filenamep of
        None \<Rightarrow> (NULL_AUDIOHANDLE, st)
      | Some filename \<Rightarrow>
        if filename = [] then (NULL_AUDIOHANDLE, st)
        else
          let volume0 = alxCreateSource_volume pf desc transform st
          in if Description.mType desc \<ge> NumAudioTypes st then (NULL_AUDIOHANDLE, st)
             else if \<not> mIsLooping desc \<and> \<not> mIsStreaming desc
                     \<and> mAudioTypeVolume st ! Description.mType desc = 0
               then (NULL_AUDIOHANDLE, st)
             else
               let volume = volume0 * mAudioTypeVolume st ! Description.mType desc in
               if \<not> mIsLooping desc \<and> \<not> mIsStreaming desc \<and> volume \<le> MIN_GAIN
               then (NULL_AUDIOHANDLE, st)
               else
                 let (index, st1) = alxCreateSource_index pf volume st in
                 if index = MAX_AUDIOSOURCES
                 then (if mIsLooping desc \<and> \<not> mIsStreaming desc
                       then alxCreateSource_inactive pf desc filename transform
                              sampleEnvironment volume st1
                       else (NULL_AUDIOHANDLE, st1))
                 else alxCreateSource_voice pf index desc filename transform
                        sampleEnvironment volume st1))"

subsection \<open>Playing and stopping\<close>

text \<open>
  \<^verbatim>\<open>alxPlay\<close> and the two reactivation passes call each other in the source. The branch
  of \<^verbatim>\<open>alxPlay\<close> for a handle that has a voice (lines 857--878) calls nothing:
\<close>

definition alxPlay_voice :: "nat \<Rightarrow> AUDIOHANDLE \<Rightarrow> audio \<Rightarrow> audio" where
  "alxPlay_voice index handle st =
     (if mHandle st ! index AND AUDIOHANDLE_INACTIVE_BIT \<noteq> 0
      then
        let clr = NOT (AUDIOHANDLE_INACTIVE_BIT OR AUDIOHANDLE_LOADING_BIT);
            st1 = st\<lparr>mHandle := (mHandle st)[index := mHandle st ! index AND clr]\<rparr>;
            st2 = (case LoopingList_findImage (loopingImages st1) (mLoopingList st1) handle of
                     Some itr \<Rightarrow>
                       setLooping (mLoopingList st1 ! itr)
                         (\<lambda>i. i\<lparr>LoopingImage.mHandle := LoopingImage.mHandle i AND clr\<rparr>) st1
                   | None \<Rightarrow> st1);
            st3 = (case StreamingList_findImage (streamSources st2) (mStreamingList st2) handle of
                     Some itr2 \<Rightarrow>
                       setStream (mStreamingList st2 ! itr2)
                         (\<lambda>s. s\<lparr>AudioStreamSource.mHandle :=
                                  AudioStreamSource.mHandle s AND clr\<rparr>) st2
                   | None \<Rightarrow> st2)
        in alSourcePlay (mSource st3 ! index) st3
      else st)"

text \<open>
  \<^verbatim>\<open>alxPlay\<close> with the looping pass it calls as an argument. In the branch for a handle
  without a voice, the looping tests return on each of their three branches, so the
  streaming tests after them (lines 899--916) are never reached and have no counterpart
  here.
\<close>

definition alxPlay_with ::
  "(audio \<Rightarrow> error + audio) \<Rightarrow> AUDIOHANDLE \<Rightarrow> audio \<Rightarrow> error + AUDIOHANDLE \<times> audio" where
  "alxPlay_with loopingUpdate handle st =
     (let index = alxFindIndex st handle in
      if index \<noteq> MAX_AUDIOSOURCES then Inr (handle, alxPlay_voice index handle st)
      else
        case LoopingList_findImage (loopingImages st) (mLoopingInactiveList st) handle of
          Some itr \<Rightarrow>
            (case loopingUpdate
                    (st\<lparr>mLoopingCulledList :=
                          mLoopingCulledList st @ [mLoopingInactiveList st ! itr],
                        mLoopingInactiveList := erase_fast (mLoopingInactiveList st) itr\<rparr>) of
               Inl e \<Rightarrow> Inl e
             | Inr st' \<Rightarrow> Inr (handle, st'))
        | None \<Rightarrow>
            (case LoopingList_findImage (loopingImages st) (mLoopingCulledList st) handle of
               Some itr \<Rightarrow>
                 (case loopingUpdate st of
                    Inl e \<Rightarrow> Inl e
                  | Inr st' \<Rightarrow> Inr (handle, st'))
             | None \<Rightarrow> Inr (NULL_AUDIOHANDLE, st)))"

text \<open>
  The call \<^verbatim>\<open>alxPlay(mHandle[index])\<close> that a pass makes after it has bound a voice. A
  pass entered from this call would be reported as \<open>Reentered\<close>; lemma
  \<open>alxPlay_in_pass_voice\<close> shows that the call always takes the branch of a handle that
  has a voice, or returns the null handle.
\<close>

definition alxPlay_in_pass :: "AUDIOHANDLE \<Rightarrow> audio \<Rightarrow> error + AUDIOHANDLE \<times> audio" where
  "alxPlay_in_pass handle st = alxPlay_with (\<lambda>st'. Inl Reentered) handle st"

subsection \<open>The reactivation passes\<close>

text \<open>
  Lines 1716--1738 of \<^verbatim>\<open>alxLoopingUpdate\<close>: the candidate \<open>p\<close> takes the voice \<open>index\<close>.
\<close>

definition alxLoopingUpdate_restore :: "nat \<Rightarrow> nat \<Rightarrow> audio \<Rightarrow> error + audio" where
  "alxLoopingUpdate_restore p index st =
     (case LoopingList_findImage (loopingImages st) (mLoopingCulledList st)
             (LoopingImage.mHandle (loopingImages st ! p)) of
        None \<Rightarrow> Inl NullIterator
      | Some tmp \<Rightarrow>
          let st1 = st\<lparr>mLoopingCulledList := erase_fast (mLoopingCulledList st) tmp\<rparr>;
              img = loopingImages st1 ! p;
              st2 = st1\<lparr>mHandle := (mHandle st1)[index := LoopingImage.mHandle img],
                        mBuffer := (mBuffer st1)[index := LoopingImage.mBuffer img],
                        mScore := (mScore st1)[index := LoopingImage.mScore img],
                        mSourceVolume := (mSourceVolume st1)
                           [index := mVolume (LoopingImage.mDescription img)],
                        mType := (mType st1)
                           [index := Description.mType (LoopingImage.mDescription img)],
                        mSampleEnvironment := (mSampleEnvironment st1)
                           [index := LoopingImage.mEnvironment img]\<rparr>;
              st3 = alxSourcePlay_image (mSource st2 ! index) img st2
          in case alxPlay_in_pass (mHandle st3 ! index) st3 of
               Inl e \<Rightarrow> Inl e
             | Inr (h, st4) \<Rightarrow> Inr st4)"

text \<open>
  Lines 1695--1713: a voice was culled for the candidate \<open>p\<close>, but the candidate has no
  buffer; it is removed from the culled list and from the master list.
\<close>

definition alxLoopingUpdate_drop :: "nat \<Rightarrow> audio \<Rightarrow> error + audio" where
  "alxLoopingUpdate_drop p st =
     (case LoopingList_findImage (loopingImages st) (mLoopingCulledList st)
             (LoopingImage.mHandle (loopingImages st ! p)) of
        None \<Rightarrow> Inl NullIterator
      | Some tmp \<Rightarrow>
          let st1 = st\<lparr>mLoopingCulledList := erase_fast (mLoopingCulledList st) tmp\<rparr> in
          case LoopingList_findImage (loopingImages st1) (mLoopingList st1)
                 (LoopingImage.mHandle (loopingImages st1 ! p)) of
            None \<Rightarrow> Inr st1
          | Some tmp' \<Rightarrow>
              let q = mLoopingList st1 ! tmp';
                  st2 = setLooping q (\<lambda>i. LoopingImage_clear) st1
              in Inr (st2\<lparr>mLoopingFreeList := mLoopingFreeList st2 @ [q],
                          mLoopingList := erase_fast (mLoopingList st2) tmp'\<rparr>))"

text \<open>
  The loop of lines 1686--1739 over the sorted candidates. \<^verbatim>\<open>index\<close> is assigned by
  \<^verbatim>\<open>findFreeSource\<close> or by \<^verbatim>\<open>cullSource\<close> in every iteration that uses it.
\<close>

fun alxLoopingUpdate_loop :: "platform \<Rightarrow> nat list \<Rightarrow> audio \<Rightarrow> error + audio" where
  "alxLoopingUpdate_loop pf [] st = Inr st"
| "alxLoopingUpdate_loop pf (p # culledList) st =
     (case findFreeSource st of
        Some index \<Rightarrow>
          (case alxLoopingUpdate_restore p index st of
             Inl e \<Rightarrow> Inl e
           | Inr st' \<Rightarrow> alxLoopingUpdate_loop pf culledList st')
      | None \<Rightarrow>
          (case cullSource pf (LoopingImage.mScore (loopingImages st ! p)) st of
             (None, st1) \<Rightarrow> Inr st1
           | (Some index, st1) \<Rightarrow>
               if LoopingImage.mBuffer (loopingImages st1 ! p) = 0
               then (case alxLoopingUpdate_drop p st1 of
                       Inl e \<Rightarrow> Inl e
                     | Inr st' \<Rightarrow> alxLoopingUpdate_loop pf culledList st')
               else (case alxLoopingUpdate_restore p index st1 of
                       Inl e \<Rightarrow> Inl e
                     | Inr st' \<Rightarrow> alxLoopingUpdate_loop pf culledList st')))"

text \<open>Lines 1667--1676: the candidates of the pass, in the order of the culled list.\<close>

definition alxLoopingUpdate_candidates :: "U32 \<Rightarrow> audio \<Rightarrow> nat list" where
  "alxLoopingUpdate_candidates updateTime st =
     filter (\<lambda>p. \<not> LoopingImage.mScore (loopingImages st ! p) \<le> MIN_UNCULL_GAIN
               \<and> \<not> updateTime - LoopingImage.mCullTime (loopingImages st ! p)
                     < MIN_UNCULL_PERIOD)
            (mLoopingCulledList st)"

definition alxLoopingUpdate :: "platform \<Rightarrow> audio \<Rightarrow> error + audio" where
  "alxLoopingUpdate pf st =
     (let (updateTime, st0) = Platform_getRealMilliseconds pf st in
      if mLoopingCulledList st0 \<noteq> []
      then
        let culledList = alxLoopingUpdate_candidates updateTime st0 in
        if culledList = [] then Inr st0
        else alxLoopingUpdate_loop pf
               (if length culledList > 1
                then LoopingList_sort pf (loopingImages st0) culledList else culledList) st0
      else Inr st0)"

text \<open>
  \<^verbatim>\<open>alxStreamingUpdate\<close>. Its first loop calls \<^verbatim>\<open>updateBuffers\<close> on the active streams,
  which refills OpenAL buffer queues and touches nothing modelled here.
\<close>

definition alxStreamingUpdate_restore :: "nat \<Rightarrow> nat \<Rightarrow> audio \<Rightarrow> error + audio" where
  "alxStreamingUpdate_restore p index st =
     (case StreamingList_findImage (streamSources st) (mStreamingCulledList st)
             (AudioStreamSource.mHandle (streamSources st ! p)) of
        None \<Rightarrow> Inl NullIterator
      | Some tmp \<Rightarrow>
          let st1 = st\<lparr>mStreamingCulledList := erase_fast (mStreamingCulledList st) tmp\<rparr>;
              st2 = alxSourcePlay_stream p st1;
              src = streamSources st2 ! p;
              st3 = st2\<lparr>mHandle := (mHandle st2)[index := AudioStreamSource.mHandle src],
                        mScore := (mScore st2)[index := AudioStreamSource.mScore src],
                        mSourceVolume := (mSourceVolume st2)
                           [index := mVolume (AudioStreamSource.mDescription src)],
                        mType := (mType st2)
                           [index := Description.mType (AudioStreamSource.mDescription src)],
                        mSampleEnvironment := (mSampleEnvironment st2)
                           [index := AudioStreamSource.mEnvironment src]\<rparr>;
              st4 = setStream p (\<lambda>s. s\<lparr>AudioStreamSource.mSource := mSource st3 ! index\<rparr>) st3
          in case alxPlay_in_pass (mHandle st4 ! index) st4 of
               Inl e \<Rightarrow> Inl e
             | Inr (h, st5) \<Rightarrow> Inr st5)"

text \<open>
  Lines 1796--1814: after a successful cull the candidate is removed and deleted; the
  test of its buffer is commented out in the source.
\<close>

definition alxStreamingUpdate_drop :: "nat \<Rightarrow> audio \<Rightarrow> error + audio" where
  "alxStreamingUpdate_drop p st =
     (case StreamingList_findImage (streamSources st) (mStreamingCulledList st)
             (AudioStreamSource.mHandle (streamSources st ! p)) of
        None \<Rightarrow> Inl NullIterator
      | Some tmp \<Rightarrow>
          let st1 = st\<lparr>mStreamingCulledList := erase_fast (mStreamingCulledList st) tmp\<rparr> in
          case StreamingList_findImage (streamSources st1) (mStreamingList st1)
                 (AudioStreamSource.mHandle (streamSources st1 ! p)) of
            None \<Rightarrow> Inr st1
          | Some tmp' \<Rightarrow>
              Inr (st1\<lparr>mStreamingList := erase_fast (mStreamingList st1) tmp'\<rparr>))"

fun alxStreamingUpdate_loop :: "platform \<Rightarrow> nat list \<Rightarrow> audio \<Rightarrow> error + audio" where
  "alxStreamingUpdate_loop pf [] st = Inr st"
| "alxStreamingUpdate_loop pf (p # culledList) st =
     (case findFreeSource st of
        Some index \<Rightarrow>
          (case alxStreamingUpdate_restore p index st of
             Inl e \<Rightarrow> Inl e
           | Inr st' \<Rightarrow> alxStreamingUpdate_loop pf culledList st')
      | None \<Rightarrow>
          (case cullSource pf (AudioStreamSource.mScore (streamSources st ! p)) st of
             (None, st1) \<Rightarrow> Inr st1
           | (Some index, st1) \<Rightarrow>
               (case alxStreamingUpdate_drop p st1 of
                  Inl e \<Rightarrow> Inl e
                | Inr st' \<Rightarrow> alxStreamingUpdate_loop pf culledList st')))"

definition alxStreamingUpdate_candidates :: "U32 \<Rightarrow> audio \<Rightarrow> nat list" where
  "alxStreamingUpdate_candidates updateTime st =
     filter (\<lambda>p. \<not> AudioStreamSource.mScore (streamSources st ! p) \<le> MIN_UNCULL_GAIN
               \<and> \<not> updateTime - AudioStreamSource.mCullTime (streamSources st ! p)
                     < MIN_UNCULL_PERIOD)
            (mStreamingCulledList st)"

definition alxStreamingUpdate :: "platform \<Rightarrow> audio \<Rightarrow> error + audio" where
  "alxStreamingUpdate pf st =
     (let (updateTime, st0) = Platform_getRealMilliseconds pf st in
      if mStreamingCulledList st0 \<noteq> []
      then
        let culledList = alxStreamingUpdate_candidates updateTime st0 in
        if culledList = [] then Inr st0
        else alxStreamingUpdate_loop pf
               (if length culledList > 1
                then StreamingList_sort pf (streamSources st0) culledList else culledList) st0
      else Inr st0)"

definition alxPlay :: "platform \<Rightarrow> AUDIOHANDLE \<Rightarrow> audio \<Rightarrow> error + AUDIOHANDLE \<times> audio" where
  "alxPlay pf handle st = alxPlay_with (alxLoopingUpdate pf) handle st"

subsection \<open>Stopping\<close>




subsection \<open>Closing voices that have stopped\<close>

text \<open>One iteration of the loop of \<^verbatim>\<open>alxCloseHandles\<close>, for the voice \<open>i\<close>.\<close>

definition alxCloseHandles_voice :: "nat \<Rightarrow> audio \<Rightarrow> audio" where
  "alxCloseHandles_voice i st =
     (if mHandle st ! i AND AUDIOHANDLE_LOADING_BIT \<noteq> 0 then st
      else if mHandle st ! i = NULL_AUDIOHANDLE then st
      else if AL_SOURCE_STATE (alSources st ! (mSource st ! i)) = AL_PLAYING then st
      else
        let st1 =
          (if mHandle st ! i AND AUDIOHANDLE_INACTIVE_BIT = 0
           then (case LoopingList_findImage (loopingImages st) (mLoopingList st)
                        (mHandle st ! i) of
                   None \<Rightarrow> st
                 | Some itr \<Rightarrow>
                     let p = mLoopingList st ! itr in
                     if LoopingImage.mHandle (loopingImages st ! p)
                          AND AUDIOHANDLE_INACTIVE_BIT = 0
                     then
                       let st' = st\<lparr>mLoopingCulledList := mLoopingCulledList st @ [p]\<rparr>;
                           st'' = setLooping p
                             (\<lambda>im. im\<lparr>LoopingImage.mHandle :=
                                      LoopingImage.mHandle im OR AUDIOHANDLE_INACTIVE_BIT\<rparr>) st'
                       in st''\<lparr>mHandle := (mHandle st'')[i := NULL_AUDIOHANDLE],
                               mBuffer := (mBuffer st'')[i := 0]\<rparr>
                     else st)
           else st)
        in st1\<lparr>mHandle := (mHandle st1)[i := NULL_AUDIOHANDLE],
               mBuffer := (mBuffer st1)[i := 0]\<rparr>)"

definition alxCloseHandles :: "audio \<Rightarrow> audio" where
  "alxCloseHandles st = fold alxCloseHandles_voice [0..<mNumSources st] st"

section \<open>Well-formed states\<close>



section \<open>Concrete states\<close>

text \<open>
  The statics after a successful \<^verbatim>\<open>OpenALInit\<close> that was granted \<open>numSources\<close> OpenAL
  sources (named \<open>0, 1, ...\<close>), with \<open>numTypes\<close> channel types: no handle, every channel at
  full gain, every list empty.
\<close>

definition OpenALInit_state :: "nat \<Rightarrow> nat \<Rightarrow> audio" where
  "OpenALInit_state numSources numTypes =
     \<lparr>mContext = True,
      mAudioTypeVolume = replicate numTypes 1,
      mMasterVolume = 1,
      mSource = [0..<numSources] @ replicate (MAX_AUDIOSOURCES - numSources) 0,
      mHandle = replicate MAX_AUDIOSOURCES NULL_AUDIOHANDLE,
      mBuffer = replicate MAX_AUDIOSOURCES 0,
      mScore = replicate MAX_AUDIOSOURCES 0,
      mSourceVolume = replicate MAX_AUDIOSOURCES 0,
      mType = replicate MAX_AUDIOSOURCES 0,
      mSampleEnvironment = replicate MAX_AUDIOSOURCES 0,
      mLoopingList = [], mLoopingFreeList = [], mLoopingInactiveList = [],
      mLoopingCulledList = [],
      mStreamingList = [], mStreamingInactiveList = [], mStreamingCulledList = [],
      mLastHandle = NULL_AUDIOHANDLE,
      mNumSources = numSources,
      loopingImages = [], streamSources = [],
      alSources = replicate numSources
        \<lparr>AL_SOURCE_STATE = AL_INITIAL, AL_GAIN = 1, AL_SOURCE_RELATIVE = False,
         AL_POSITION = (0, 0, 0), AL_REFERENCE_DISTANCE = 1, AL_MAX_DISTANCE = 1\<rparr>,
      alListenerPosition = (0, 0, 0),
      clockReads = 0\<rparr>"

text \<open>
  A platform for concrete runs: a clock that starts at 1000 ms and advances by one per
  reading, a \<^verbatim>\<open>dQsort\<close> that leaves the array as it is, a resource for every file name,
  a stream object for every file name, and the sum of the absolute coordinates as length.
\<close>

definition witness_platform :: platform where
  "witness_platform = \<lparr>getRealMilliseconds = (\<lambda>n. 1000 + of_nat n),
     dQsort = (\<lambda>cmp v. v), AudioBuffer_find = (\<lambda>f. length f),
     getNewInstance = (\<lambda>f. True),
     magnitudeSafe = (\<lambda>(x, y, z). \<bar>x\<bar> + \<bar>y\<bar> + \<bar>z\<bar>)\<rparr>"

text \<open>A 2D one-shot description of channel type 0 with the given volume.\<close>

definition oneShot :: "F32 \<Rightarrow> Description" where
  "oneShot v = \<lparr>mVolume = v, mIsLooping = False, mIsStreaming = False, mIs3D = False,
     mReferenceDistance = 1, mMaxDistance = 100, mType = 0\<rparr>"

text \<open>
  Two voices, both taken by one-shots of volume 0.9 and 0.2 that were created but not
  yet played.
\<close>

definition witness_two_voices :: audio where
  "witness_two_voices =
     (OpenALInit_state 2 3)
       \<lparr>mHandle := [0x20000001, 0x20000002] @ replicate 14 0,
        mBuffer := [5, 5] @ replicate 14 0,
        mScore := [9/10, 1/5] @ replicate 14 0,
        mSourceVolume := [9/10, 1/5] @ replicate 14 0,
        mLastHandle := 2,
        alSources :=
          [\<lparr>AL_SOURCE_STATE = AL_INITIAL, AL_GAIN = 41/100, AL_SOURCE_RELATIVE = True,
            AL_POSITION = (0, 0, 1), AL_REFERENCE_DISTANCE = 1, AL_MAX_DISTANCE = 100\<rparr>,
           \<lparr>AL_SOURCE_STATE = AL_INITIAL, AL_GAIN = 41/1000, AL_SOURCE_RELATIVE = True,
            AL_POSITION = (0, 0, 1), AL_REFERENCE_DISTANCE = 1, AL_MAX_DISTANCE = 100\<rparr>]\<rparr>"

text \<open>A 2D looping description of channel type 0 with the given volume.\<close>

definition looper :: "F32 \<Rightarrow> Description" where
  "looper v = \<lparr>mVolume = v, mIsLooping = True, mIsStreaming = False, mIs3D = False,
     mReferenceDistance = 1, mMaxDistance = 100, mType = 0\<rparr>"

text \<open>
  Two voices, the first taken by a looping source of volume 1 that was created and not
  yet played.
\<close>

definition witness_looper_created :: audio where
  "witness_looper_created =
     (OpenALInit_state 2 3)
       \<lparr>mHandle := [0xA0000001] @ replicate 15 0,
        mBuffer := [5] @ replicate 15 0,
        mScore := [1] @ replicate 15 0,
        mSourceVolume := [1] @ replicate 15 0,
        mLoopingList := [0],
        mLastHandle := 1,
        loopingImages :=
          [\<lparr>LoopingImage.mHandle = 0xA0000001, mBuffer = 5, mDescription = looper 1,
            mEnvironment = 0, mPosition = (0, 0, 0), mDirection = (0, 1, 0), mPitch = 1,
            mScore = 1, mCullTime = 0\<rparr>],
        alSources :=
          [\<lparr>AL_SOURCE_STATE = AL_INITIAL, AL_GAIN = 1, AL_SOURCE_RELATIVE = True,
            AL_POSITION = (0, 0, 1), AL_REFERENCE_DISTANCE = 1, AL_MAX_DISTANCE = 100\<rparr>,
           \<lparr>AL_SOURCE_STATE = AL_INITIAL, AL_GAIN = 1, AL_SOURCE_RELATIVE = False,
            AL_POSITION = (0, 0, 0), AL_REFERENCE_DISTANCE = 1, AL_MAX_DISTANCE = 1\<rparr>]\<rparr>"

text \<open>The same source after \<^verbatim>\<open>alxPlay\<close>.\<close>

definition witness_looper_playing :: audio where
  "witness_looper_playing =
     witness_looper_created
       \<lparr>mHandle := [0x80000001] @ replicate 15 0,
        loopingImages :=
          [\<lparr>LoopingImage.mHandle = 0x80000001, mBuffer = 5, mDescription = looper 1,
            mEnvironment = 0, mPosition = (0, 0, 0), mDirection = (0, 1, 0), mPitch = 1,
            mScore = 1, mCullTime = 0\<rparr>],
        alSources :=
          [\<lparr>AL_SOURCE_STATE = AL_PLAYING, AL_GAIN = 1, AL_SOURCE_RELATIVE = True,
            AL_POSITION = (0, 0, 1), AL_REFERENCE_DISTANCE = 1, AL_MAX_DISTANCE = 100\<rparr>,
           \<lparr>AL_SOURCE_STATE = AL_INITIAL, AL_GAIN = 1, AL_SOURCE_RELATIVE = False,
            AL_POSITION = (0, 0, 0), AL_REFERENCE_DISTANCE = 1, AL_MAX_DISTANCE = 1\<rparr>]\<rparr>"


section \<open>Properties of the gain codec\<close>

lemma logmax_eq: "logmax = 128"
  by (simp add: logmax_def logtab_def)

lemma length_logtab: "length logtab = 128"
  by (simp add: logtab_def)

lemma logtab_succ: "successively (<) logtab"
  by (simp add: logtab_def)

lemma logtab_sorted: "sorted_wrt (<) logtab"
  using logtab_succ by (simp add: successively_conv_sorted_wrt)

lemma sdiv2_nonneg: "0 \<le> (a::int) \<Longrightarrow> a sdiv 2 = a div 2"
  by (simp add: signed_divide_int_def sgn_if)

lemma loop_returns:
  assumes "0 \<le> mn" "mn < mx" "mx \<le> int (length tab)" "mid = mn + ((mx - mn) div 2)"
  shows "\<exists>r. DBToLinear_loop tab v mn mx mid = Some (Inr r) \<and> mn \<le> r \<and> r < mx"
  using assms
proof (induction "nat (mx - mn)" arbitrary: mn mx mid rule: less_induct)
  case less
  have mid_lo: "mn \<le> mid" and mid_hi: "mid < mx" using less.prems by auto
  have inb: "\<not> (mid < 0 \<or> int (length tab) \<le> mid)" using less.prems mid_lo mid_hi by auto
  show ?case
  proof (cases "tab ! nat mid = v")
    case True
    then show ?thesis using inb mid_lo mid_hi
      by (subst DBToLinear_loop.simps) simp
  next
    case ne: False
    show ?thesis
    proof (cases "tab ! nat mid < v")
      case lt: True
      let ?mid' = "mid + ((mx - mid) sdiv 2)"
      have m': "?mid' = mid + ((mx - mid) div 2)" using mid_hi by (simp add: sdiv2_nonneg)
      show ?thesis
      proof (cases "mid = ?mid'")
        case True
        then show ?thesis using inb ne lt mid_lo mid_hi
          by (subst DBToLinear_loop.simps) (simp add: Let_def)
      next
        case False
        then have gt: "mn < mid" using less.prems m' by auto
        have "\<exists>r. DBToLinear_loop tab v mid mx ?mid' = Some (Inr r) \<and> mid \<le> r \<and> r < mx"
          using less.hyps[of mx mid ?mid'] gt mid_hi less.prems m' mid_lo by auto
        then show ?thesis using inb ne lt False mid_lo
          by (subst DBToLinear_loop.simps) (auto simp: Let_def)
      qed
    next
      case ge: False
      let ?mid' = "mn + ((mid - mn) sdiv 2)"
      have m': "?mid' = mn + ((mid - mn) div 2)" using mid_lo by (simp add: sdiv2_nonneg)
      show ?thesis
      proof (cases "mid = ?mid'")
        case True
        then show ?thesis using inb ne ge mid_lo mid_hi
          by (subst DBToLinear_loop.simps) (simp add: Let_def)
      next
        case False
        then have gt: "mn < mid" using mid_lo m' by auto
        have "\<exists>r. DBToLinear_loop tab v mn mid ?mid' = Some (Inr r) \<and> mn \<le> r \<and> r < mid"
          using less.hyps[of mid mn ?mid'] gt mid_hi less.prems m' mid_lo by auto
        then show ?thesis using inb ne ge False mid_hi
          by (subst DBToLinear_loop.simps) (auto simp: Let_def)
      qed
    qed
  qed
qed

lemma loop_finds:
  assumes "sorted_wrt (<) tab" "0 \<le> mn" "mn \<le> k" "k < mx" "mx \<le> int (length tab)"
    "mid = mn + ((mx - mn) div 2)"
  shows "DBToLinear_loop tab (tab ! nat k) mn mx mid = Some (Inr k)"
  using assms
proof (induction "nat (mx - mn)" arbitrary: mn mx mid rule: less_induct)
  case less
  have mid_lo: "mn \<le> mid" and mid_hi: "mid < mx" using less.prems by auto
  have inb: "\<not> (mid < 0 \<or> int (length tab) \<le> mid)" using less.prems mid_lo mid_hi by auto
  have klen: "nat k < length tab" and mlen: "nat mid < length tab" using less.prems mid_hi mid_lo by auto
  have eq_iff: "tab ! nat mid = tab ! nat k \<longleftrightarrow> mid = k"
  proof
    assume e: "tab ! nat mid = tab ! nat k"
    show "mid = k"
    proof (rule ccontr)
      assume "mid \<noteq> k"
      then consider "nat mid < nat k" | "nat k < nat mid" using less.prems mid_lo by force
      then show False
        using sorted_wrt_nth_less[OF less.prems(1), of "nat mid" "nat k"]
              sorted_wrt_nth_less[OF less.prems(1), of "nat k" "nat mid"] klen mlen e
        by cases auto
    qed
  qed simp
  have lt_iff: "tab ! nat mid < tab ! nat k \<longleftrightarrow> mid < k"
  proof
    assume l: "tab ! nat mid < tab ! nat k"
    show "mid < k"
    proof (rule ccontr)
      assume "\<not> mid < k"
      then have "k = mid \<or> nat k < nat mid" using less.prems mid_lo by force
      then show False
        using sorted_wrt_nth_less[OF less.prems(1), of "nat k" "nat mid"] klen mlen l
        by auto
    qed
  next
    assume "mid < k"
    then have "nat mid < nat k" using less.prems mid_lo by auto
    then show "tab ! nat mid < tab ! nat k"
      using sorted_wrt_nth_less[OF less.prems(1), of "nat mid" "nat k"] klen by auto
  qed
  show ?case
  proof (cases "mid = k")
    case True
    then show ?thesis using inb by (subst DBToLinear_loop.simps) simp
  next
    case ne: False
    show ?thesis
    proof (cases "mid < k")
      case lt: True
      let ?mid' = "mid + ((mx - mid) sdiv 2)"
      have m': "?mid' = mid + ((mx - mid) div 2)" using mid_hi by (simp add: sdiv2_nonneg)
      have neq: "mid \<noteq> ?mid'" using lt less.prems m' by auto
      have gt: "mn < mid" using neq less.prems m' by auto
      have "DBToLinear_loop tab (tab ! nat k) mid mx ?mid' = Some (Inr k)"
        using less.hyps[of mx mid ?mid'] gt lt less.prems m' mid_lo by auto
      then show ?thesis using inb ne lt neq eq_iff lt_iff
        by (subst DBToLinear_loop.simps) (simp add: Let_def)
    next
      case ge: False
      let ?mid' = "mn + ((mid - mn) sdiv 2)"
      have m': "?mid' = mn + ((mid - mn) div 2)" using mid_lo by (simp add: sdiv2_nonneg)
      have kl: "k < mid" using ne ge by auto
      have neq: "mid \<noteq> ?mid'" using kl less.prems m' by auto
      have "DBToLinear_loop tab (tab ! nat k) mn mid ?mid' = Some (Inr k)"
        using less.hyps[of mid mn ?mid'] kl mid_hi less.prems m' mid_lo by auto
      then show ?thesis using inb ne ge neq eq_iff lt_iff
        by (subst DBToLinear_loop.simps) (simp add: Let_def)
    qed
  qed
qed


lemma logtab_last: "logtab ! 127 = 0.99"
  by (simp add: logtab_def)

lemma logtab_first: "logtab ! 0 = 0"
  by (simp add: logtab_def)

lemma logtab_range:
  assumes "k < 128"
  shows "0 \<le> logtab ! k" "logtab ! k < 1" "0 < k \<Longrightarrow> 0 < logtab ! k"
proof -
  have len: "length logtab = 128" by (rule length_logtab)
  have up: "logtab ! k \<le> logtab ! 127"
  proof (cases "k = 127")
    case False
    then have "k < 127" using assms by simp
    then show ?thesis using sorted_wrt_nth_less[OF logtab_sorted, of k 127] len by simp
  qed simp
  then show "logtab ! k < 1" by (simp add: logtab_last)
  show pos: "0 < k \<Longrightarrow> 0 < logtab ! k"
    using sorted_wrt_nth_less[OF logtab_sorted, of 0 k] len assms by (simp add: logtab_first)
  show "0 \<le> logtab ! k"
    using pos by (cases "k = 0") (auto simp: logtab_first)
qed

text \<open>
  Claim C10. The loop of \<^verbatim>\<open>DBToLinear\<close> terminates for every value strictly between 0 and
  1, and every read of the table is inside the table: started as \<^verbatim>\<open>DBToLinear\<close> starts
  it, on any table of \<open>logmax\<close> entries, the loop returns an index \<open>mid\<close> with
  \<open>0 \<le> mid < logmax\<close> (the value \<open>None\<close> would be a loop that never exits, the value
  \<open>Inl OutOfBounds\<close> a read outside the table), and \<^verbatim>\<open>DBToLinear\<close> returns
  \<open>mid / logmax\<close>.
\<close>

theorem DBToLinear_loop_terminates_in_bounds:
  assumes "length tab = nat logmax" "0 < v" "v < 1"
  shows "\<exists>mid. DBToLinear_loop tab v 0 logmax ((logmax - 0) sdiv 2) = Some (Inr mid)
           \<and> 0 \<le> mid \<and> mid < logmax
           \<and> DBToLinear_tab tab v = Some (Inr (real_of_int mid / real_of_int logmax))"
proof -
  have m: "(logmax - 0) sdiv 2 = 0 + ((logmax - 0) div 2)"
    by (simp add: logmax_eq sdiv2_nonneg)
  have "\<exists>r. DBToLinear_loop tab v 0 logmax (0 + ((logmax - 0) div 2)) = Some (Inr r)
          \<and> 0 \<le> r \<and> r < logmax"
    by (rule loop_returns) (use assms in \<open>simp_all add: logmax_eq\<close>)
  then obtain r where r: "DBToLinear_loop tab v 0 logmax ((logmax - 0) sdiv 2) = Some (Inr r)"
      "0 \<le> r" "r < logmax"
    using m by auto
  then show ?thesis using assms by (auto simp: DBToLinear_tab_def)
qed

theorem DBToLinear_loop_terminates_in_bounds_witness:
  "length logtab = nat logmax \<and> (0::real) < 1/2 \<and> (1/2::real) < 1
   \<and> (\<exists>mid. DBToLinear_loop logtab (1/2) 0 logmax ((logmax - 0) sdiv 2) = Some (Inr mid)
           \<and> 0 \<le> mid \<and> mid < logmax
           \<and> DBToLinear_tab logtab (1/2) = Some (Inr (real_of_int mid / real_of_int logmax)))"
  using DBToLinear_loop_terminates_in_bounds [of logtab "1/2"]
  by (simp add: logmax_eq length_logtab)

lemma DBToLinear_logtab:
  assumes "k < 128"
  shows "DBToLinear (logtab ! k) = Some (Inr (real k / 128))"
proof (cases "k = 0")
  case True
  then show ?thesis by (simp add: DBToLinear_def DBToLinear_tab_def logtab_first)
next
  case False
  have m: "(logmax - 0) sdiv 2 = 0 + ((logmax - 0) div 2)"
    by (simp add: logmax_eq sdiv2_nonneg)
  have "DBToLinear_loop logtab (logtab ! nat (int k)) 0 logmax (0 + ((logmax - 0) div 2))
          = Some (Inr (int k))"
    by (rule loop_finds[OF logtab_sorted]) (use assms in \<open>simp_all add: logmax_eq length_logtab\<close>)
  then have "DBToLinear_loop logtab (logtab ! k) 0 logmax ((logmax - 0) sdiv 2) = Some (Inr (int k))"
    using m by simp
  moreover have "0 < logtab ! k" "logtab ! k < 1"
    using logtab_range[OF assms] False by auto
  ultimately show ?thesis
    by (simp add: DBToLinear_def DBToLinear_tab_def logmax_eq)
qed

lemma linearToDB_index:
  assumes "0 < v" "v < 1"
  shows "linearToDB_index v < length logtab"
proof -
  have "0 \<le> \<lfloor>128 * v\<rfloor>" using assms by simp
  moreover have "\<lfloor>128 * v\<rfloor> < 128" using assms by (simp add: floor_less_iff)
  ultimately show ?thesis
    unfolding linearToDB_index_def logmax_eq length_logtab by linarith
qed

text \<open>
  Claim C5. \<^verbatim>\<open>linearToDB\<close> and \<^verbatim>\<open>DBToLinear\<close> map every input at or below 0 to 0 and
  every input at or above 1 to 1, and for every \<open>x\<close> in \<open>[0,1]\<close> the round trip
  \<^verbatim>\<open>DBToLinear(linearToDB(x))\<close> returns a value within \<open>1/logmax\<close> of \<open>x\<close>.
\<close>

theorem gain_codec_round_trip:
  "(x \<le> 0 \<longrightarrow> linearToDB x = 0 \<and> DBToLinear x = Some (Inr 0))
   \<and> (1 \<le> x \<longrightarrow> linearToDB x = 1 \<and> DBToLinear x = Some (Inr 1))
   \<and> (0 \<le> x \<and> x \<le> 1 \<longrightarrow>
        (\<exists>z. DBToLinear (linearToDB x) = Some (Inr z)
             \<and> \<bar>z - x\<bar> \<le> 1 / real_of_int logmax))"
proof -
  have neg: "linearToDB x = 0 \<and> DBToLinear x = Some (Inr 0)" if "x \<le> 0"
    using that by (simp add: linearToDB_def DBToLinear_def DBToLinear_tab_def)
  have big: "linearToDB x = 1 \<and> DBToLinear x = Some (Inr 1)" if "1 \<le> x"
    using that by (simp add: linearToDB_def DBToLinear_def DBToLinear_tab_def)
  have mid: "\<exists>z. DBToLinear (linearToDB x) = Some (Inr z)
               \<and> \<bar>z - x\<bar> \<le> 1 / real_of_int logmax" if x: "0 \<le> x \<and> x \<le> 1"
  proof -
    consider "x = 0" | "x = 1" | "0 < x" "x < 1" using x by fastforce
    then show ?thesis
    proof cases
      case 1
      then show ?thesis
        by (simp add: linearToDB_def DBToLinear_def DBToLinear_tab_def logmax_eq)
    next
      case 2
      then show ?thesis
        by (simp add: linearToDB_def DBToLinear_def DBToLinear_tab_def logmax_eq)
    next
      case 3
      define k where "k = linearToDB_index x"
      have k: "k < 128" using linearToDB_index[OF 3] by (simp add: k_def length_logtab)
      have fl0: "0 \<le> \<lfloor>128 * x\<rfloor>" using 3 by simp
      have kr: "real k = of_int \<lfloor>128 * x\<rfloor>"
        using fl0 by (simp add: k_def linearToDB_index_def logmax_eq)
      have lo: "real k \<le> 128 * x" unfolding kr by linarith
      have hi: "128 * x < real k + 1" unfolding kr by linarith
      have l: "linearToDB x = logtab ! k"
        using 3 by (simp add: linearToDB_def k_def)
      have d: "DBToLinear (logtab ! k) = Some (Inr (real k / 128))"
        by (rule DBToLinear_logtab[OF k])
      have "\<bar>real k / 128 - x\<bar> \<le> 1 / 128" using lo hi by (simp add: abs_le_iff field_simps)
      then have "\<bar>real k / 128 - x\<bar> \<le> 1 / real_of_int logmax" by (simp add: logmax_eq)
      with d show ?thesis unfolding l by blast
    qed
  qed
  show ?thesis using neg big mid by blast
qed

theorem gain_codec_round_trip_witness:
  "linearToDB 0 = 0 \<and> DBToLinear 0 = Some (Inr 0)
   \<and> linearToDB 1 = 1 \<and> DBToLinear 1 = Some (Inr 1)
   \<and> (\<exists>z. DBToLinear (linearToDB (1/2)) = Some (Inr z)
             \<and> \<bar>z - 1/2\<bar> \<le> 1 / real_of_int logmax)"
  using gain_codec_round_trip [of 0] gain_codec_round_trip [of 1] gain_codec_round_trip [of "1/2"]
  by simp

text \<open>
  Claim C4, as stated: handle equality compares the sequence bits only and ignores all
  four role flags. It fails for the STREAMING flag: the handles \<open>0x40000001\<close> and
  \<open>0x00000001\<close> have the same sequence bits and differ only in the STREAMING bit, and
  \<^verbatim>\<open>areEqualHandles\<close> tells them apart.
\<close>

theorem areEqualHandles_streaming_counterexample:
  "((0x40000001::AUDIOHANDLE) AND spec_SEQUENCE_MASK) = (0x00000001 AND spec_SEQUENCE_MASK)
   \<and> \<not> areEqualHandles 0x40000001 0x00000001"
  by (simp add: areEqualHandles_def HANDLE_MASK_def spec_SEQUENCE_MASK_def
      AUDIOHANDLE_LOOPING_BIT_def AUDIOHANDLE_STREAMING_BIT_def
      AUDIOHANDLE_INACTIVE_BIT_def AUDIOHANDLE_LOADING_BIT_def)

text \<open>
  Claim C4, amended: \<^verbatim>\<open>areEqualHandles\<close> holds exactly when the two handles agree on the
  sequence bits and on the STREAMING bit; the flags LOOPING, INACTIVE and LOADING are
  ignored. \<^verbatim>\<open>HANDLE_MASK\<close> clears those three flags and keeps the STREAMING bit.
\<close>

theorem areEqualHandles_compares_sequence_and_streaming:
  "areEqualHandles a b \<longleftrightarrow>
     (a AND spec_SEQUENCE_MASK) = (b AND spec_SEQUENCE_MASK)
     \<and> (a AND AUDIOHANDLE_STREAMING_BIT) = (b AND AUDIOHANDLE_STREAMING_BIT)"
proof -
  have split: "HANDLE_MASK = spec_SEQUENCE_MASK OR AUDIOHANDLE_STREAMING_BIT"
    by (simp add: HANDLE_MASK_def spec_SEQUENCE_MASK_def
      AUDIOHANDLE_LOOPING_BIT_def AUDIOHANDLE_STREAMING_BIT_def
      AUDIOHANDLE_INACTIVE_BIT_def AUDIOHANDLE_LOADING_BIT_def)
  have disj: "spec_SEQUENCE_MASK AND AUDIOHANDLE_STREAMING_BIT = 0"
    by (simp add: spec_SEQUENCE_MASK_def
      AUDIOHANDLE_LOOPING_BIT_def AUDIOHANDLE_STREAMING_BIT_def
      AUDIOHANDLE_INACTIVE_BIT_def AUDIOHANDLE_LOADING_BIT_def)
  have "\<And>m1 m2 :: AUDIOHANDLE. m1 AND m2 = 0 \<Longrightarrow>
      ((a AND (m1 OR m2)) = (b AND (m1 OR m2))) = ((a AND m1) = (b AND m1) \<and> (a AND m2) = (b AND m2))"
    by (auto simp: bit_eq_iff bit_and_iff bit_or_iff)
  from this[OF disj] show ?thesis by (simp add: areEqualHandles_def split)
qed


section \<open>Culling and creation\<close>

lemma witness_two_voices_reached:
  "snd (alxCreateSource witness_platform (Some (oneShot (1/5))) (Some ''b.wav'') None 0
       (snd (alxCreateSource witness_platform (Some (oneShot (9/10))) (Some ''a.wav'') None 0
          (OpenALInit_state 2 3)))) = witness_two_voices"
  by code_simp




text \<open>Functions that leave the voice tables and the lists alone.\<close>

lemma setLooping_fields [simp]:
  "mHandle (setLooping p f st) = mHandle st"
  "mBuffer (setLooping p f st) = mBuffer st"
  "mScore (setLooping p f st) = mScore st"
  "mNumSources (setLooping p f st) = mNumSources st"
  "mSource (setLooping p f st) = mSource st"
  "mLoopingList (setLooping p f st) = mLoopingList st"
  "mLoopingFreeList (setLooping p f st) = mLoopingFreeList st"
  "mLoopingInactiveList (setLooping p f st) = mLoopingInactiveList st"
  "mLoopingCulledList (setLooping p f st) = mLoopingCulledList st"
  "mStreamingList (setLooping p f st) = mStreamingList st"
  "mStreamingInactiveList (setLooping p f st) = mStreamingInactiveList st"
  "mStreamingCulledList (setLooping p f st) = mStreamingCulledList st"
  "streamSources (setLooping p f st) = streamSources st"
  "loopingImages (setLooping p f st) = (loopingImages st)[p := f (loopingImages st ! p)]"
  "clockReads (setLooping p f st) = clockReads st"
  "mLastHandle (setLooping p f st) = mLastHandle st"
  "alSources (setLooping p f st) = alSources st"
  by (simp_all add: setLooping_def)

lemma setStream_fields [simp]:
  "mHandle (setStream p f st) = mHandle st"
  "mBuffer (setStream p f st) = mBuffer st"
  "mScore (setStream p f st) = mScore st"
  "mNumSources (setStream p f st) = mNumSources st"
  "mSource (setStream p f st) = mSource st"
  "mLoopingList (setStream p f st) = mLoopingList st"
  "mLoopingFreeList (setStream p f st) = mLoopingFreeList st"
  "mLoopingInactiveList (setStream p f st) = mLoopingInactiveList st"
  "mLoopingCulledList (setStream p f st) = mLoopingCulledList st"
  "mStreamingList (setStream p f st) = mStreamingList st"
  "mStreamingInactiveList (setStream p f st) = mStreamingInactiveList st"
  "mStreamingCulledList (setStream p f st) = mStreamingCulledList st"
  "loopingImages (setStream p f st) = loopingImages st"
  "streamSources (setStream p f st) = (streamSources st)[p := f (streamSources st ! p)]"
  "clockReads (setStream p f st) = clockReads st"
  "mLastHandle (setStream p f st) = mLastHandle st"
  "alSources (setStream p f st) = alSources st"
  by (simp_all add: setStream_def)

lemma alSource_set_fields [simp]:
  "mHandle (alSource_set s f st) = mHandle st"
  "mBuffer (alSource_set s f st) = mBuffer st"
  "mScore (alSource_set s f st) = mScore st"
  "mNumSources (alSource_set s f st) = mNumSources st"
  "mSource (alSource_set s f st) = mSource st"
  "mLoopingList (alSource_set s f st) = mLoopingList st"
  "mLoopingFreeList (alSource_set s f st) = mLoopingFreeList st"
  "mLoopingInactiveList (alSource_set s f st) = mLoopingInactiveList st"
  "mLoopingCulledList (alSource_set s f st) = mLoopingCulledList st"
  "mStreamingList (alSource_set s f st) = mStreamingList st"
  "mStreamingInactiveList (alSource_set s f st) = mStreamingInactiveList st"
  "mStreamingCulledList (alSource_set s f st) = mStreamingCulledList st"
  "loopingImages (alSource_set s f st) = loopingImages st"
  "streamSources (alSource_set s f st) = streamSources st"
  "clockReads (alSource_set s f st) = clockReads st"
  "mLastHandle (alSource_set s f st) = mLastHandle st"
  by (simp_all add: alSource_set_def)

lemma clock_fields [simp]:
  "mHandle (snd (Platform_getRealMilliseconds pf st)) = mHandle st"
  "mBuffer (snd (Platform_getRealMilliseconds pf st)) = mBuffer st"
  "mScore (snd (Platform_getRealMilliseconds pf st)) = mScore st"
  "mNumSources (snd (Platform_getRealMilliseconds pf st)) = mNumSources st"
  "mSource (snd (Platform_getRealMilliseconds pf st)) = mSource st"
  "mLoopingList (snd (Platform_getRealMilliseconds pf st)) = mLoopingList st"
  "mLoopingFreeList (snd (Platform_getRealMilliseconds pf st)) = mLoopingFreeList st"
  "mLoopingInactiveList (snd (Platform_getRealMilliseconds pf st)) = mLoopingInactiveList st"
  "mLoopingCulledList (snd (Platform_getRealMilliseconds pf st)) = mLoopingCulledList st"
  "mStreamingList (snd (Platform_getRealMilliseconds pf st)) = mStreamingList st"
  "mStreamingInactiveList (snd (Platform_getRealMilliseconds pf st)) = mStreamingInactiveList st"
  "mStreamingCulledList (snd (Platform_getRealMilliseconds pf st)) = mStreamingCulledList st"
  "loopingImages (snd (Platform_getRealMilliseconds pf st)) = loopingImages st"
  "streamSources (snd (Platform_getRealMilliseconds pf st)) = streamSources st"
  "mLastHandle (snd (Platform_getRealMilliseconds pf st)) = mLastHandle st"
  "alSources (snd (Platform_getRealMilliseconds pf st)) = alSources st"
  by (simp_all add: Platform_getRealMilliseconds_def)

lemma cullSource_looper_voices [simp]:
  "mHandle (cullSource_looper pf b st) = mHandle st"
  "mBuffer (cullSource_looper pf b st) = mBuffer st"
  "mScore (cullSource_looper pf b st) = mScore st"
  "mNumSources (cullSource_looper pf b st) = mNumSources st"
  "mSource (cullSource_looper pf b st) = mSource st"
  by (simp_all add: cullSource_looper_def Let_def split_beta split: option.splits)

lemma cullSource_streamer_voices [simp]:
  "mHandle (cullSource_streamer pf b st) = mHandle st"
  "mBuffer (cullSource_streamer pf b st) = mBuffer st"
  "mScore (cullSource_streamer pf b st) = mScore st"
  "mNumSources (cullSource_streamer pf b st) = mNumSources st"
  "mSource (cullSource_streamer pf b st) = mSource st"
  by (simp_all add: cullSource_streamer_def Let_def split_beta split: option.splits)





lemma findFreeSource_Some:
  "findFreeSource st = Some i \<Longrightarrow> i < mNumSources st \<and> mHandle st ! i = NULL_AUDIOHANDLE"
  by (auto simp: findFreeSource_def find_Some_iff)


lemma alxUpdateScores_sources_fields [simp]:
  "mHandle (alxUpdateScores_sources pf st) = mHandle st"
  "mBuffer (alxUpdateScores_sources pf st) = mBuffer st"
  "mNumSources (alxUpdateScores_sources pf st) = mNumSources st"
  "mLoopingList (alxUpdateScores_sources pf st) = mLoopingList st"
  "mLoopingFreeList (alxUpdateScores_sources pf st) = mLoopingFreeList st"
  "mLoopingInactiveList (alxUpdateScores_sources pf st) = mLoopingInactiveList st"
  "mLoopingCulledList (alxUpdateScores_sources pf st) = mLoopingCulledList st"
  "mStreamingList (alxUpdateScores_sources pf st) = mStreamingList st"
  "mStreamingInactiveList (alxUpdateScores_sources pf st) = mStreamingInactiveList st"
  "mStreamingCulledList (alxUpdateScores_sources pf st) = mStreamingCulledList st"
  "loopingImages (alxUpdateScores_sources pf st) = loopingImages st"
  "streamSources (alxUpdateScores_sources pf st) = streamSources st"
  "mLastHandle (alxUpdateScores_sources pf st) = mLastHandle st"
  "mSource (alxUpdateScores_sources pf st) = mSource st"
  by (simp_all add: alxUpdateScores_sources_def)









lemma F32_to_int_fraction: "\<bar>d\<bar> < 1 \<Longrightarrow> F32_to_int d = 0"
  unfolding F32_to_int_def by (auto simp: floor_eq_iff ceiling_eq_iff)

lemma loopingImageSort_fraction:
  "\<bar>LoopingImage.mScore ip2 - LoopingImage.mScore ip1\<bar> < 1 \<Longrightarrow> loopingImageSort ip1 ip2 = 0"
  by (simp add: loopingImageSort_def F32_to_int_fraction)

text \<open>
  Claim C8 says that the sorted candidate list is in descending order of score for all
  scores in \<open>[0,1]\<close>. The comparison functions convert the difference of two scores to
  \<^verbatim>\<open>int\<close>, so for scores 0.3 and 0.7 they return 0 in both orders: the candidates compare
  as equal, and \<^verbatim>\<open>dQsort\<close> may leave the one with the lower score first.
\<close>

theorem loopingImageSort_cannot_order_fractions:
  "loopingImageSort (LoopingImage_clear\<lparr>LoopingImage.mScore := 3/10\<rparr>)
                    (LoopingImage_clear\<lparr>LoopingImage.mScore := 7/10\<rparr>) = 0
   \<and> loopingImageSort (LoopingImage_clear\<lparr>LoopingImage.mScore := 7/10\<rparr>)
                      (LoopingImage_clear\<lparr>LoopingImage.mScore := 3/10\<rparr>) = 0
   \<and> streamingSourceSort (AudioStreamSource_new\<lparr>AudioStreamSource.mScore := 3/10\<rparr>)
                         (AudioStreamSource_new\<lparr>AudioStreamSource.mScore := 7/10\<rparr>) = 0
   \<and> streamingSourceSort (AudioStreamSource_new\<lparr>AudioStreamSource.mScore := 7/10\<rparr>)
                         (AudioStreamSource_new\<lparr>AudioStreamSource.mScore := 3/10\<rparr>) = 0"
  by (simp add: loopingImageSort_def streamingSourceSort_def F32_to_int_def)




section \<open>Handles and membership lists\<close>

subsection \<open>Handle equality is an equivalence\<close>

lemma areEqualHandles_refl [simp]: "areEqualHandles a a"
  by (simp add: areEqualHandles_def)

lemma areEqualHandles_sym: "areEqualHandles a b \<Longrightarrow> areEqualHandles b a"
  by (simp add: areEqualHandles_def)

lemma areEqualHandles_trans:
  "areEqualHandles a b \<Longrightarrow> areEqualHandles b c \<Longrightarrow> areEqualHandles a c"
  by (simp add: areEqualHandles_def)

lemma mask_facts:
  "AUDIOHANDLE_INACTIVE_BIT AND HANDLE_MASK = 0"
  "AUDIOHANDLE_LOOPING_BIT AND HANDLE_MASK = 0"
  "AUDIOHANDLE_LOADING_BIT AND HANDLE_MASK = 0"
  "NOT (AUDIOHANDLE_INACTIVE_BIT OR AUDIOHANDLE_LOADING_BIT) AND HANDLE_MASK = HANDLE_MASK"
  "HANDLE_MASK AND AUDIOHANDLE_STREAMING_BIT = AUDIOHANDLE_STREAMING_BIT"
  by (simp_all add: HANDLE_MASK_def AUDIOHANDLE_LOOPING_BIT_def AUDIOHANDLE_STREAMING_BIT_def
      AUDIOHANDLE_INACTIVE_BIT_def AUDIOHANDLE_LOADING_BIT_def)

lemma and_mask_set_inactive:
  "(a OR AUDIOHANDLE_INACTIVE_BIT) AND HANDLE_MASK = a AND HANDLE_MASK"
  by (simp add: bit.conj_disj_distrib2 mask_facts)

lemma and_mask_set_looping:
  "(a OR AUDIOHANDLE_LOOPING_BIT) AND HANDLE_MASK = a AND HANDLE_MASK"
  by (simp add: bit.conj_disj_distrib2 mask_facts)

lemma and_mask_set_loading:
  "(a OR AUDIOHANDLE_LOADING_BIT) AND HANDLE_MASK = a AND HANDLE_MASK"
  by (simp add: bit.conj_disj_distrib2 mask_facts)

lemma and_mask_clear_bits:
  "(a AND RETURN_MASK) AND HANDLE_MASK = a AND HANDLE_MASK"
  unfolding RETURN_MASK_def by (simp only: and.assoc mask_facts)

lemma areEqualHandles_set_inactive [simp]:
  "areEqualHandles (a OR AUDIOHANDLE_INACTIVE_BIT) b = areEqualHandles a b"
  "areEqualHandles b (a OR AUDIOHANDLE_INACTIVE_BIT) = areEqualHandles b a"
  by (simp_all add: areEqualHandles_def and_mask_set_inactive)

lemma areEqualHandles_set_looping [simp]:
  "areEqualHandles (a OR AUDIOHANDLE_LOOPING_BIT) b = areEqualHandles a b"
  "areEqualHandles b (a OR AUDIOHANDLE_LOOPING_BIT) = areEqualHandles b a"
  by (simp_all add: areEqualHandles_def and_mask_set_looping)

lemma areEqualHandles_clear_bits [simp]:
  "areEqualHandles (a AND RETURN_MASK) b = areEqualHandles a b"
  "areEqualHandles b (a AND RETURN_MASK) = areEqualHandles b a"
  by (simp_all only: areEqualHandles_def and_mask_clear_bits)

lemma areEqualHandles_streaming_bit:
  assumes "areEqualHandles a b"
  shows "a AND AUDIOHANDLE_STREAMING_BIT = b AND AUDIOHANDLE_STREAMING_BIT"
proof -
  have e: "a AND HANDLE_MASK = b AND HANDLE_MASK" using assms by (simp add: areEqualHandles_def)
  have "a AND AUDIOHANDLE_STREAMING_BIT = (a AND HANDLE_MASK) AND AUDIOHANDLE_STREAMING_BIT"
    by (simp only: and.assoc mask_facts)
  also have "\<dots> = (b AND HANDLE_MASK) AND AUDIOHANDLE_STREAMING_BIT" by (simp only: e)
  also have "\<dots> = b AND AUDIOHANDLE_STREAMING_BIT" by (simp only: and.assoc mask_facts)
  finally show ?thesis .
qed

subsection \<open>The scan of findImage\<close>







subsection \<open>erase_fast\<close>

lemma mset_erase_fast:
  assumes "itr < length v"
  shows "mset (erase_fast v itr) = mset v - {#v ! itr#}"
proof -
  from assms have ne: "v \<noteq> []" by auto
  then have v: "v = butlast v @ [last v]" by simp
  show ?thesis
  proof (cases "itr < length v - 1")
    case True
    then have i: "itr < length (butlast v)" by simp
    have "mset (erase_fast v itr) = add_mset (last v) (mset (butlast v) - {#butlast v ! itr#})"
      using True i by (simp add: erase_fast_def mset_update)
    moreover have "butlast v ! itr = v ! itr" using i by (simp add: nth_butlast)
    moreover have "mset v = add_mset (last v) (mset (butlast v))"
      by (subst v) simp
    moreover have "v ! itr \<in># mset (butlast v)"
      using i \<open>butlast v ! itr = v ! itr\<close> by (metis nth_mem set_mset_mset)
    ultimately show ?thesis by simp
  next
    case False
    then have "itr = length v - 1" using assms by simp
    then have "v ! itr = last v" using ne by (simp add: last_conv_nth)
    moreover have "mset v = add_mset (last v) (mset (butlast v))"
      by (subst v) simp
    ultimately show ?thesis using False by (simp add: erase_fast_def)
  qed
qed

lemma erase_fast_distinct:
  assumes "itr < length v" "distinct v"
  shows "distinct (erase_fast v itr)" "set (erase_fast v itr) = set v - {v ! itr}"
proof -
  have m: "mset (erase_fast v itr) = mset v - {#v ! itr#}" by (rule mset_erase_fast[OF assms(1)])
  have c: "count (mset v) x \<le> 1" for x using assms(2) by (simp add: distinct_count_atmost_1)
  have "count (mset (erase_fast v itr)) x \<le> 1" for x
    unfolding m using c[of x] by (simp split: if_splits)
  then have "\<forall>x. count (mset (erase_fast v itr)) x = (if x \<in> set (erase_fast v itr) then 1 else 0)"
    by (metis count_mset_0_iff le_neq_implies_less less_one nat_less_le)
  then show "distinct (erase_fast v itr)"
    by (simp add: distinct_count_atmost_1)
  have vin: "v ! itr \<in> set v" using assms(1) by simp
  have c1: "count (mset v) (v ! itr) = 1"
    using assms(2) vin by (simp add: distinct_count_atmost_1)
  have "x \<in># mset v - {#v ! itr#} \<longleftrightarrow> x \<in> set v \<and> x \<noteq> v ! itr" for x
    using c1 by (cases "x = v ! itr") (auto simp: in_diff_count)
  then have "x \<in> set (erase_fast v itr) \<longleftrightarrow> x \<in> set v \<and> x \<noteq> v ! itr" for x
    using m by (metis set_mset_mset)
  then show "set (erase_fast v itr) = set v - {v ! itr}" by auto
qed

lemma erase_fast_subset: "set (erase_fast v itr) \<subseteq> set v"
proof (cases "itr < length v")
  case True
  then show ?thesis using mset_erase_fast[OF True]
    by (metis in_diffD set_mset_mset subsetI)
next
  case False
  then show ?thesis by (auto simp: erase_fast_def dest: in_set_butlastD)
qed

lemma erase_fast_keeps:
  assumes "itr < length v" "x \<in> set v" "x \<noteq> v ! itr"
  shows "x \<in> set (erase_fast v itr)"
proof -
  have "x \<in># mset v - {#v ! itr#}" using assms(2,3) by (simp add: in_diff_count)
  then show ?thesis using mset_erase_fast[OF assms(1)] by (metis set_mset_mset)
qed

section \<open>Stopping a source\<close>














lemma witness_looper_created_reached:
  "alxCreateSource witness_platform (Some (looper 1)) (Some ''a.wav'') None 0
     (OpenALInit_state 2 3) = (0x80000001, witness_looper_created)"
  by code_simp

lemma witness_looper_playing_reached:
  "alxPlay witness_platform 0x80000001 witness_looper_created
     = Inr (0x80000001, witness_looper_playing)"
  by code_simp




end
